theory Spec2Isabelle
  imports Main
begin

section \<open>Strings of the client\<close>

text \<open>
  A JavaScript string is a sequence of UTF-16 code units; a code unit is modelled by its
  number. \<open>js\<close> reads an ASCII literal as such a string.
\<close>

type_synonym jschar = nat
type_synonym jsstring = "jschar list"

definition js :: "string \<Rightarrow> jsstring" where
  "js s = map of_char s"

text \<open>
  The characters matched by the regular expression class \<open>\s\<close> and removed by
  \<open>trim()\<close>: tab, line feed, vertical tab, form feed, carriage return, space,
  no-break space, U+1680, U+2000 to U+200A, U+2028, U+2029, U+202F, U+205F, U+3000, U+FEFF.
\<close>

definition isWhiteSpace :: "jschar \<Rightarrow> bool" where
  "isWhiteSpace c \<longleftrightarrow>
     c = 9 \<or> c = 10 \<or> c = 11 \<or> c = 12 \<or> c = 13 \<or> c = 32 \<or> c = 160 \<or> c = 5760 \<or>
     (8192 \<le> c \<and> c \<le> 8202) \<or> c = 8232 \<or> c = 8233 \<or> c = 8239 \<or> c = 8287 \<or>
     c = 12288 \<or> c = 65279"

text \<open>\<open>s.trim()\<close>\<close>

definition trim :: "jsstring \<Rightarrow> jsstring" where
  "trim s = rev (dropWhile isWhiteSpace (rev (dropWhile isWhiteSpace s)))"

text \<open>\<open>s.replace(/\s+/g, '')\<close>: every maximal run of white space is replaced by nothing.\<close>

function replace_ws_runs :: "jsstring \<Rightarrow> jsstring" where
  "replace_ws_runs [] = []"
| "replace_ws_runs (c # cs) =
     (if isWhiteSpace c then replace_ws_runs (dropWhile isWhiteSpace cs)
      else c # replace_ws_runs cs)"
  by pat_completeness auto
termination
  by (relation "measure length") (auto simp: length_dropWhile_le less_Suc_eq_le)

text \<open>\<open>xs.join(sep)\<close>\<close>

fun join :: "jsstring \<Rightarrow> jsstring list \<Rightarrow> jsstring" where
  "join sep [] = []"
| "join sep [x] = x"
| "join sep (x # y # ys) = x @ sep @ join sep (y # ys)"

text \<open>\<open>s.slice(0, n)\<close>\<close>

definition slice0 :: "nat \<Rightarrow> jsstring \<Rightarrow> jsstring" where
  "slice0 n s = take n s"

text \<open>
  \<open>toLowerCase\<close> follows the Unicode case tables, which are not part of the program:
  the functions below take it as the parameter \<open>lower\<close>. \<open>latin_lower\<close> is its
  restriction to the code units below 256, where it adds 32 to the capital letters.
\<close>

definition latin_lower :: "jsstring \<Rightarrow> jsstring" where
  "latin_lower s =
     map (\<lambda>c. if (65 \<le> c \<and> c \<le> 90) \<or> (192 \<le> c \<and> c \<le> 222 \<and> c \<noteq> 215) then c + 32 else c) s"

section \<open>ContentHasher: \<open>generatePdfHash\<close>\<close>

text \<open>
  What the PDF library makes of a payload: \<open>getDocument\<close> rejects (\<open>Unreadable\<close>) or
  yields a document, a list of pages; \<open>getTextContent\<close> of a page rejects (\<open>None\<close>) or
  yields its text items, each with a field \<open>str\<close>.
\<close>

record text_item =
  str :: jsstring

type_synonym page = "text_item list option"

datatype payload = Unreadable | Document "page list"

text \<open>
  \<open>generatePdfHash\<close>: \<open>None\<close> is the \<open>null\<close> returned by the catch block, when the
  library is not loaded, the document cannot be read, page 1 does not exist or its text
  cannot be read.
\<close>

definition generatePdfHash :: "(jsstring \<Rightarrow> jsstring) \<Rightarrow> bool \<Rightarrow> payload \<Rightarrow> jsstring option" where
  "generatePdfHash lower pdfjsLoaded pdfData =
     (if \<not> pdfjsLoaded then None
      else case pdfData of
        Unreadable \<Rightarrow> None
      | Document [] \<Rightarrow> None
      | Document (None # _) \<Rightarrow> None
      | Document (Some items # _) \<Rightarrow>
          (let textItems = map str items;
               text = join [] textItems;
               hashStr = lower (replace_ws_runs (slice0 48 text))
           in Some hashStr))"

text \<open>
  The reference definition, in the words of the specification: the text runs of the first
  page only are concatenated, the first 48 characters are taken, all white space is removed
  from them and the result is lowercased; an unsupported or malformed payload gives a
  failure.
\<close>

definition first_page_runs :: "payload \<Rightarrow> jsstring list option" where
  "first_page_runs p =
     (case p of Unreadable \<Rightarrow> None
      | Document ps \<Rightarrow> (case ps of [] \<Rightarrow> None | pg # _ \<Rightarrow> map_option (map str) pg))"

definition fingerprint_spec :: "(jsstring \<Rightarrow> jsstring) \<Rightarrow> bool \<Rightarrow> payload \<Rightarrow> jsstring option" where
  "fingerprint_spec lower supported p =
     (if \<not> supported then None
      else map_option (\<lambda>runs. lower (filter (\<lambda>c. \<not> isWhiteSpace c) (take 48 (concat runs))))
             (first_page_runs p))"

text \<open>The text of the first page, when there is one.\<close>

definition first_page_text :: "payload \<Rightarrow> jsstring option" where
  "first_page_text p = map_option concat (first_page_runs p)"

text \<open>White space removed, as the specification words it.\<close>

definition strip_ws :: "jsstring \<Rightarrow> jsstring" where
  "strip_ws s = filter (\<lambda>c. \<not> isWhiteSpace c) s"

text \<open>
  The first 48 characters of the first page's text, and the first 48 characters that
  remain of it after white space stripping.
\<close>

definition raw_prefix :: "payload \<Rightarrow> jsstring option" where
  "raw_prefix p = map_option (take 48) (first_page_text p)"

definition stripped_prefix :: "payload \<Rightarrow> jsstring option" where
  "stripped_prefix p = map_option (\<lambda>t. take 48 (strip_ws t)) (first_page_text p)"

text \<open>Sample documents of one page and one text run.\<close>

definition one_run_doc :: "jsstring \<Rightarrow> payload" where
  "one_run_doc t = Document [Some [\<lparr>str = t\<rparr>]]"

definition doc_spaced :: payload where
  "doc_spaced = one_run_doc (js ''a'' @ replicate 47 32 @ js ''b'')"

definition doc_tight :: payload where
  "doc_tight = one_run_doc (js ''ab'')"

definition doc_long1 :: payload where
  "doc_long1 = Document [Some [\<lparr>str = replicate 48 65\<rparr>, \<lparr>str = js ''x''\<rparr>], Some [\<lparr>str = js ''p2''\<rparr>]]"

definition doc_long2 :: payload where
  "doc_long2 = Document [Some [\<lparr>str = replicate 24 65\<rparr>, \<lparr>str = replicate 24 65 @ js ''y''\<rparr>]]"

section \<open>Data of the orchestration\<close>

text \<open>
  The client (the front-end script) keeps its state in global variables and in the page.
  Both are gathered in the record \<open>ctx\<close>; every handler takes the state and returns the
  new one. The answers of the backend, of the browser and of the libraries are not the
  program's: a handler reads them from the record \<open>env\<close>. A handler is modelled run to
  completion, from the event to the end of its last continuation; an event that arrives
  while it waits for an answer finds the lock held and the controls disabled. A timer that
  fires while a handler waits is not modelled.
\<close>

datatype view = SearchView | PaperView | UploadsView

datatype toast_type = Info | Error | Success

datatype exn = TypeError | ReferenceError | Failure jsstring

text \<open>
  A call either returns or throws; the changes it made to the state before throwing stay.
\<close>

datatype 'a completion = Returned 'a | Raised exn 'a

fun state_of :: "'a completion \<Rightarrow> 'a" where
  "state_of (Returned s) = s"
| "state_of (Raised e s) = s"

fun has_raised :: "'a completion \<Rightarrow> bool" where
  "has_raised (Returned s) = False"
| "has_raised (Raised e s) = True"

text \<open>The body of an HTTP answer as \<open>response.json()\<close> reads it, and the answer itself.\<close>

datatype 'a body = Unparsable | JsonNull | JsonObj 'a

datatype 'a reply = NetworkError | Reply bool "'a body"

record arxiv_ref =
  ref_title :: "jsstring option"
  ref_authors :: "jsstring list option"
  ref_summary :: "jsstring option"

text \<open>A paper object of the backend; \<open>None\<close> is an absent field.\<close>

record paper =
  arxiv_id :: "jsstring option"
  original_arxiv_id :: "jsstring option"
  sanitized_arxiv_id :: "jsstring option"
  title :: "jsstring option"
  authors :: "jsstring list option"
  summary :: "jsstring option"
  processing :: "bool option"
  message :: "jsstring option"
  arxivReference :: "arxiv_ref option"
  primary_category :: "jsstring option"
  categories :: "jsstring list option"
  published :: "jsstring option"
  updated :: "jsstring option"
  pdf_url :: "jsstring option"

definition empty_paper :: paper where
  "empty_paper = \<lparr>arxiv_id = None, original_arxiv_id = None, sanitized_arxiv_id = None,
     title = None, authors = None, summary = None, processing = None, message = None,
     arxivReference = None, primary_category = None, categories = None, published = None,
     updated = None, pdf_url = None\<rparr>"

text \<open>An entry of \<open>myUploads\<close>.\<close>

record upload =
  up_arxiv_id :: jsstring
  up_sanitized_arxiv_id :: jsstring
  up_title :: jsstring
  uploadDate :: jsstring
  fileUrl :: jsstring
  fileName :: jsstring

text \<open>
  \<open>processPaperSummary\<close> and \<open>enqueuePaper\<close> receive a paper of the search results or an
  entry of the uploads.
\<close>

datatype paperData = OfPaper paper | OfUpload upload

fun pd_arxiv_id :: "paperData \<Rightarrow> jsstring option" where
  "pd_arxiv_id (OfPaper p) = arxiv_id p"
| "pd_arxiv_id (OfUpload u) = Some (up_arxiv_id u)"

fun pd_original_arxiv_id :: "paperData \<Rightarrow> jsstring option" where
  "pd_original_arxiv_id (OfPaper p) = original_arxiv_id p"
| "pd_original_arxiv_id (OfUpload u) = None"

fun pd_sanitized_arxiv_id :: "paperData \<Rightarrow> jsstring option" where
  "pd_sanitized_arxiv_id (OfPaper p) = sanitized_arxiv_id p"
| "pd_sanitized_arxiv_id (OfUpload u) = Some (up_sanitized_arxiv_id u)"

record search_data =
  sd_error :: "jsstring option"
  papers :: "paper list option"
  has_next_page :: "bool option"

record error_data =
  err :: "jsstring option"

record upload_file =
  file_name :: jsstring
  file_payload :: payload

datatype request =
    SearchReq jsstring int jsstring
  | PaperReq jsstring
  | HashReq jsstring
  | EnqueueReq paperData
  | PutReq jsstring

datatype callback = UploadDone jsstring

record card =
  data_paper :: paper
  card_loading :: bool
  card_disabled :: bool

datatype item = PaperCard card | UploadCard upload

record paper_display =
  shown_title :: jsstring
  shown_authors :: jsstring
  shown_summary :: jsstring

text \<open>
  The global variables of the script, under their names, and what the handlers read and
  write of the page: the value of the search input and of the sort select, the file of
  the upload input, the \<open>disabled\<close> flags (\<open>controlsDisabled\<close> stands for the buttons,
  inputs and selects that have no flag of their own), whether the pagination bar, the
  paper view, the search section, the results section and the upload dialog are displayed,
  the page label, the cards of the results container and the content of the paper view
  (before the summary's markers are turned into markup). \<open>toasts\<close> lists the notices
  shown, \<open>netlog\<close> the requests sent, \<open>timers\<close> the callbacks scheduled with their
  delay, each in order.
\<close>

record ctx =
  currentPage :: int
  currentQuery :: jsstring
  currentSortBy :: jsstring
  hasNextPage :: bool
  currentView :: view
  currentPaperData :: "paper option"
  myUploads :: "upload list"
  isApiCallInProgress :: bool
  searchInputValue :: jsstring
  sortBySelectValue :: jsstring
  uploadInputFile :: "upload_file option"
  controlsDisabled :: bool
  prevPageDisabled :: bool
  nextPageDisabled :: bool
  uploadButtonDisabled :: bool
  uploadButtonLoading :: bool
  paginationDisplay :: bool
  pageInfo :: int
  resultsContainer :: "item list"
  paperContent :: "paper_display option"
  paperViewShown :: bool
  searchSectionShown :: bool
  resultsSectionShown :: bool
  uploadModalShown :: bool
  toasts :: "(jsstring \<times> toast_type) list"
  netlog :: "request list"
  timers :: "(nat \<times> callback) list"

text \<open>
  What an operation gets from outside: the lowercasing of the platform, whether the PDF
  library is loaded, whether the page runs from a \<open>file:\<close> location, whether
  \<open>history.pushState\<close> throws, whether the window object has properties
  \<open>prevPageButton\<close> and \<open>nextPageButton\<close> that are the two page buttons, whether the
  markup of the page makes the two navigation tabs and the return control buttons (the
  markup is not part of the script), the clock, the generated identifier, the date in ISO
  form, the message of a failure of the platform or a library, the document produced by
  the conversion (\<open>None\<close> when it throws) and the answers to the five requests.
\<close>

record env =
  toLowerCase :: "jsstring \<Rightarrow> jsstring"
  pdfjsLoaded :: bool
  fileProtocol :: bool
  pushStateThrows :: bool
  windowPagerProps :: bool
  tabsAreButtons :: bool
  returnIsButton :: bool
  dateNow :: nat
  uuid :: jsstring
  isoDate :: jsstring
  failureMessage :: jsstring
  converted :: "payload option"
  searchReply :: "search_data reply"
  paperReply :: "paper reply"
  hashReply :: "paper reply"
  putReply :: "bool option"
  enqueueReply :: "error_data reply"

section \<open>Helpers of the language\<close>

text \<open>A string field is truthy when it is present and not empty.\<close>

fun truthy :: "jsstring option \<Rightarrow> bool" where
  "truthy None = False"
| "truthy (Some s) = (s \<noteq> [])"

text \<open>\<open>s.includes(sub)\<close> and \<open>s.startsWith(sub)\<close>\<close>

definition startsWith :: "jsstring \<Rightarrow> jsstring \<Rightarrow> bool" where
  "startsWith s sub \<longleftrightarrow> take (length sub) s = sub"

fun includes_str :: "jsstring \<Rightarrow> jsstring \<Rightarrow> bool" where
  "includes_str [] sub = (sub = [])"
| "includes_str (c # cs) sub = (startsWith (c # cs) sub \<or> includes_str cs sub)"

text \<open>The decimal digits of a number, as a template literal prints it.\<close>

fun decimal :: "nat \<Rightarrow> jsstring" where
  "decimal n = (if n < 10 then [48 + n] else decimal (n div 10) @ [48 + n mod 10])"

declare decimal.simps [simp del]

text \<open>\<open>name.split('.').pop()\<close>: what follows the last dot, or the whole name.\<close>

definition last_segment :: "jsstring \<Rightarrow> jsstring" where
  "last_segment name = rev (takeWhile (\<lambda>c. c \<noteq> 46) (rev name))"

text \<open>
  \<open>name.replace(/\.[^/.]+$/, "")\<close>: a last dot followed by at least one character, none
  of them a slash, is removed with what follows it.
\<close>

definition strip_extension :: "jsstring \<Rightarrow> jsstring" where
  "strip_extension name =
     (let suffix = last_segment name
      in if 46 \<in> set name \<and> suffix \<noteq> [] \<and> 47 \<notin> set suffix
         then take (length name - length suffix - 1) name else name)"

text \<open>\<open>text.replace(/'/g, "&apos;")\<close>\<close>

definition escape_apos :: "jsstring \<Rightarrow> jsstring" where
  "escape_apos s = concat (map (\<lambda>c. if c = 39 then js ''&apos;'' else [c]) s)"

definition escape_paper :: "paper \<Rightarrow> paper" where
  "escape_paper p = p\<lparr>
     arxiv_id := map_option escape_apos (arxiv_id p),
     original_arxiv_id := map_option escape_apos (original_arxiv_id p),
     sanitized_arxiv_id := map_option escape_apos (sanitized_arxiv_id p),
     title := map_option escape_apos (title p),
     authors := map_option (map escape_apos) (authors p),
     summary := map_option escape_apos (summary p),
     message := map_option escape_apos (message p),
     arxivReference := map_option (\<lambda>r. \<lparr>ref_title = map_option escape_apos (ref_title r),
         ref_authors = map_option (map escape_apos) (ref_authors r),
         ref_summary = map_option escape_apos (ref_summary r)\<rparr>) (arxivReference p),
     primary_category := map_option escape_apos (primary_category p),
     categories := map_option (map escape_apos) (categories p),
     published := map_option escape_apos (published p),
     updated := map_option escape_apos (updated p),
     pdf_url := map_option escape_apos (pdf_url p)\<rparr>"

section \<open>Notices\<close>

definition msg_wait :: jsstring where
  "msg_wait = js ''Please wait for the current operation to complete''"

definition msg_enter_query :: jsstring where
  "msg_enter_query = js ''Please enter a search query''"

definition msg_fetch_failed :: jsstring where
  "msg_fetch_failed = js ''Failed to fetch results. Please try again.''"

definition msg_being_summarized :: jsstring where
  "msg_being_summarized = js ''The paper is being summarized. Please check back later.''"

definition msg_queued_summarizing :: jsstring where
  "msg_queued_summarizing = js ''Paper has been queued for summarizing''"

definition msg_could_not :: jsstring where
  "msg_could_not = js ''Could not summarize paper''"

definition msg_loading :: jsstring where
  "msg_loading = js ''Loading paper...''"

definition msg_not_found :: jsstring where
  "msg_not_found = js ''Paper not found or not yet summarized.''"

definition msg_select_file :: jsstring where
  "msg_select_file = js ''Please select a file''"

definition msg_existing :: jsstring where
  "msg_existing = js ''Existing summary found for uploaded file''"

definition msg_unsupported :: jsstring where
  "msg_unsupported = 10060 # js '' Unsupported file type. Please upload PDF, DOCX, or TXT.''"

definition msg_queued_summarization :: jsstring where
  "msg_queued_summarization = js ''Paper has been queued for summarization''"

definition msg_queue_issue :: jsstring where
  "msg_queue_issue = js ''There was an issue queuing the paper for summarization''"

definition msg_upload_error :: "jsstring \<Rightarrow> jsstring" where
  "msg_upload_error m =
     10060 # js '' Upload error: '' @ (if m \<noteq> [] then m else js ''Unknown error'')"

definition msg_uploaded :: "jsstring \<Rightarrow> jsstring" where
  "msg_uploaded name = js ''File uploaded successfully! '' @ name"

text \<open>\<open>showToast\<close>: the notice is added to the toast container.\<close>

definition showToast :: "jsstring \<Rightarrow> toast_type \<Rightarrow> ctx \<Rightarrow> ctx" where
  "showToast m t s = s\<lparr>toasts := toasts s @ [(m, t)]\<rparr>"

section \<open>OperationLock: \<open>setApiCallState\<close>\<close>

fun set_item_disabled :: "bool \<Rightarrow> item \<Rightarrow> item" where
  "set_item_disabled b (PaperCard c) = PaperCard (c\<lparr>card_disabled := b\<rparr>)"
| "set_item_disabled b (UploadCard u) = UploadCard u"

definition disableAllUIInteractions :: "ctx \<Rightarrow> ctx" where
  "disableAllUIInteractions s = s\<lparr>
     controlsDisabled := True, prevPageDisabled := True, nextPageDisabled := True,
     uploadButtonDisabled := True,
     resultsContainer := map (set_item_disabled True) (resultsContainer s)\<rparr>"

text \<open>
  \<open>enableAllUIInteractions\<close> enables every button, input and select, the summarize
  buttons and the two page buttons among them. It then reads \<open>window.prevPageButton\<close>,
  \<open>window.currentPage\<close>, \<open>window.nextPageButton\<close> and \<open>window.hasNextPage\<close>. The
  script declares \<open>currentPage\<close> and \<open>hasNextPage\<close> with \<open>let\<close> and the two buttons
  with \<open>const\<close>, which makes none of them a property of the window: the two variables
  read as \<open>undefined\<close>, so \<open>window.currentPage === 0\<close> is false and
  \<open>!window.hasNextPage\<close> is true, and the two assignments run only when the page itself
  gives the window properties of these names.
\<close>

definition enableAllUIInteractions :: "env \<Rightarrow> ctx \<Rightarrow> ctx" where
  "enableAllUIInteractions e s =
     (let s1 = s\<lparr>controlsDisabled := False, prevPageDisabled := False,
                 nextPageDisabled := False, uploadButtonDisabled := False,
                 resultsContainer := map (set_item_disabled False) (resultsContainer s)\<rparr>;
          s2 = (if windowPagerProps e then s1\<lparr>prevPageDisabled := False\<rparr> else s1);
          s3 = (if windowPagerProps e then s2\<lparr>nextPageDisabled := True\<rparr> else s2)
      in s3)"

definition setApiCallState :: "env \<Rightarrow> bool \<Rightarrow> ctx \<Rightarrow> ctx" where
  "setApiCallState e inProgress s =
     (let s1 = s\<lparr>isApiCallInProgress := inProgress\<rparr>
      in if inProgress then disableAllUIInteractions s1 else enableAllUIInteractions e s1)"

section \<open>Search\<close>

text \<open>\<open>sanitizeArxivId\<close>: every slash becomes a dash.\<close>

definition sanitizeArxivId :: "jsstring \<Rightarrow> jsstring" where
  "sanitizeArxivId arxivId = map (\<lambda>c. if c = 47 then 45 else c) arxivId"

definition show_pagination :: "ctx \<Rightarrow> ctx" where
  "show_pagination s =
     s\<lparr>paginationDisplay := (currentView s = SearchView \<and> currentQuery s \<noteq> [])\<rparr>"

text \<open>
  \<open>createPaperCard\<close>: the paper gets its original and sanitized identifier when it has an
  identifier; \<open>paper.authors.join\<close> throws when the paper has no authors (\<open>None\<close>); the
  button carries the paper as its \<open>data-paper\<close> attribute, apostrophes escaped.
\<close>

definition createPaperCard :: "paper \<Rightarrow> card option" where
  "createPaperCard p =
     (let p1 = (if truthy (arxiv_id p)
                then p\<lparr>original_arxiv_id := arxiv_id p,
                       sanitized_arxiv_id := map_option sanitizeArxivId (arxiv_id p)\<rparr>
                else p)
      in case authors p1 of
           None \<Rightarrow> None
         | Some a \<Rightarrow> Some \<lparr>data_paper = escape_paper p1, card_loading = False,
                           card_disabled = False\<rparr>)"

text \<open>The \<open>forEach\<close> of \<open>displayResults\<close>; manual uploads are left out.\<close>

fun append_cards :: "paper list \<Rightarrow> item list \<Rightarrow> item list completion" where
  "append_cards [] acc = Returned acc"
| "append_cards (p # ps) acc =
     (if \<not> truthy (arxiv_id p) \<or> \<not> startsWith (the (arxiv_id p)) (js ''manual-upload-'')
      then (case createPaperCard p of
              None \<Rightarrow> Raised TypeError acc
            | Some c \<Rightarrow> append_cards ps (acc @ [PaperCard c]))
      else append_cards ps acc)"

text \<open>
  \<open>displayResults\<close>. \<open>hasNextPage\<close> is only ever read for its truth value, which is what
  the field holds.
\<close>

definition displayResults :: "search_data \<Rightarrow> ctx \<Rightarrow> ctx completion" where
  "displayResults d s =
     (let s1 = show_pagination s;
          s2 = s1\<lparr>resultsContainer := []\<rparr>
      in case papers d of
           None \<Rightarrow> Raised TypeError s2
         | Some ps \<Rightarrow>
             (case append_cards ps [] of
                Raised x acc \<Rightarrow> Raised x (s2\<lparr>resultsContainer := acc\<rparr>)
              | Returned acc \<Rightarrow>
                  Returned (s2\<lparr>resultsContainer := acc,
                     hasNextPage := (has_next_page d = Some True),
                     prevPageDisabled := (currentPage s2 = 0),
                     nextPageDisabled := (has_next_page d \<noteq> Some True),
                     pageInfo := currentPage s2 + 1\<rparr>)))"

text \<open>\<open>fetchResults\<close>: the try block with its catch, then the finally block.\<close>

definition fetchResults_try :: "env \<Rightarrow> ctx \<Rightarrow> ctx" where
  "fetchResults_try e s =
     (let s1 = setApiCallState e True s;
          s2 = s1\<lparr>resultsContainer := [],
                  netlog := netlog s1 @
                    [SearchReq (currentQuery s1) (currentPage s1) (currentSortBy s1)]\<rparr>
      in case searchReply e of
           NetworkError \<Rightarrow> showToast msg_fetch_failed Error s2
         | Reply ok Unparsable \<Rightarrow> showToast msg_fetch_failed Error s2
         | Reply ok JsonNull \<Rightarrow> showToast msg_fetch_failed Error s2
         | Reply ok (JsonObj d) \<Rightarrow>
             if truthy (sd_error d) then showToast (the (sd_error d)) Error s2
             else (case displayResults d s2 of
                     Returned s3 \<Rightarrow> s3
                   | Raised x s3 \<Rightarrow> showToast msg_fetch_failed Error s3))"

definition fetchResults :: "env \<Rightarrow> ctx \<Rightarrow> ctx" where
  "fetchResults e s = setApiCallState e False (fetchResults_try e s)"

section \<open>ViewController\<close>

text \<open>
  \<open>showSearchView\<close>. The fetch it starts is not awaited; its continuation changes
  neither the view nor the query, which is all \<open>show_pagination\<close> reads.
\<close>

definition showSearchView :: "env \<Rightarrow> bool \<Rightarrow> ctx \<Rightarrow> ctx" where
  "showSearchView e skipFetch s =
     (let s1 = s\<lparr>currentView := SearchView, paperViewShown := False,
                 searchSectionShown := True, resultsSectionShown := True,
                 paginationDisplay := True\<rparr>;
          s2 = (if \<not> skipFetch \<and> currentQuery s1 \<noteq> [] \<and> \<not> isApiCallInProgress s1
                then fetchResults e s1
                else if currentQuery s1 = [] then s1\<lparr>resultsContainer := []\<rparr>
                else s1)
      in show_pagination s2)"

text \<open>
  \<open>displayUploadsList\<close>. With no upload, the branch assigns to \<open>uploadCard\<close>, a name
  declared only inside the loop below it: a ReferenceError.
\<close>

definition displayUploadsList :: "ctx \<Rightarrow> ctx completion" where
  "displayUploadsList s =
     (let s1 = s\<lparr>resultsContainer := []\<rparr>
      in if myUploads s1 = [] then Raised ReferenceError s1
         else Returned (s1\<lparr>resultsContainer := map UploadCard (myUploads s1)\<rparr>))"

definition showUploadsView :: "ctx \<Rightarrow> ctx completion" where
  "showUploadsView s =
     displayUploadsList (s\<lparr>currentView := UploadsView, paperViewShown := False,
        searchSectionShown := False, resultsSectionShown := True,
        searchInputValue := [], currentQuery := [], paginationDisplay := False\<rparr>)"

definition showPaperView :: "ctx \<Rightarrow> ctx" where
  "showPaperView s = s\<lparr>currentView := PaperView, paperViewShown := True,
     searchSectionShown := False, resultsSectionShown := False\<rparr>"

text \<open>
  \<open>displayPaper\<close>: summary, authors and title come from the record or from its
  \<open>arxivReference\<close>.
\<close>

definition displayPaper :: "paper \<Rightarrow> ctx \<Rightarrow> ctx" where
  "displayPaper p s =
     (let r = arxivReference p;
          summary_text =
            (if truthy (summary p) then the (summary p)
             else if r \<noteq> None \<and> truthy (ref_summary (the r)) then the (ref_summary (the r))
             else []);
          author_list =
            (if authors p \<noteq> None then the (authors p)
             else if r \<noteq> None \<and> ref_authors (the r) \<noteq> None then the (ref_authors (the r))
             else []);
          title0 = (if truthy (title p) then the (title p) else []);
          title_text =
            (if title0 = [] \<and> r \<noteq> None \<and> truthy (ref_title (the r)) then the (ref_title (the r))
             else title0)
      in showPaperView (s\<lparr>paperContent := Some \<lparr>shown_title = title_text,
            shown_authors = join (js '', '') author_list,
            shown_summary = summary_text\<rparr>\<rparr>))"

section \<open>Handlers of the search controls\<close>

definition handleSearch :: "env \<Rightarrow> ctx \<Rightarrow> ctx" where
  "handleSearch e s =
     (if isApiCallInProgress s then showToast msg_wait Info s
      else let s1 = s\<lparr>currentQuery := trim (searchInputValue s)\<rparr>
           in if currentQuery s1 = [] then showToast msg_enter_query Error s1
              else let s2 = showSearchView e True s1;
                       s3 = s2\<lparr>currentPage := 0\<rparr>
                   in fetchResults e s3)"

definition handleSortChange :: "env \<Rightarrow> ctx \<Rightarrow> ctx" where
  "handleSortChange e s =
     (if isApiCallInProgress s then showToast msg_wait Info s
      else let s1 = s\<lparr>currentSortBy := sortBySelectValue s, currentPage := 0\<rparr>
           in if currentView s1 = SearchView \<and> currentQuery s1 \<noteq> [] then fetchResults e s1
              else s1)"

definition handlePageChange :: "env \<Rightarrow> int \<Rightarrow> ctx \<Rightarrow> ctx" where
  "handlePageChange e delta s =
     (if isApiCallInProgress s then showToast msg_wait Info s
      else let s1 = s\<lparr>currentPage := currentPage s + delta\<rparr>
           in if currentView s1 = SearchView then fetchResults e s1 else s1)"

section \<open>TaskSubmitter and summarize flow\<close>

text \<open>\<open>hasSummary\<close>, on a record that is there.\<close>

definition hasSummary :: "paper \<Rightarrow> bool" where
  "hasSummary d \<longleftrightarrow> (case summary d of None \<Rightarrow> False | Some t \<Rightarrow> trim t \<noteq> [])"

text \<open>
  \<open>enqueuePaper\<close>: one POST; \<open>false\<close> when the request fails, the body cannot be read
  (or is \<open>null\<close>, where reading \<open>data.error\<close> throws into the catch block) or the body
  has an \<open>error\<close>; \<open>true\<close> otherwise. It never throws.
\<close>

definition enqueuePaper :: "env \<Rightarrow> paperData \<Rightarrow> ctx \<Rightarrow> bool \<times> ctx" where
  "enqueuePaper e pd s =
     (let s1 = s\<lparr>netlog := netlog s @ [EnqueueReq pd]\<rparr>
      in case enqueueReply e of
           NetworkError \<Rightarrow> (False, s1)
         | Reply ok Unparsable \<Rightarrow> (False, s1)
         | Reply ok JsonNull \<Rightarrow> (False, s1)
         | Reply ok (JsonObj d) \<Rightarrow> (if truthy (err d) then (False, s1) else (True, s1)))"

definition setButtonLoading :: "nat \<Rightarrow> bool \<Rightarrow> ctx \<Rightarrow> ctx" where
  "setButtonLoading i isLoading s =
     (if i < length (resultsContainer s)
      then (case resultsContainer s ! i of
              PaperCard c \<Rightarrow> s\<lparr>resultsContainer := (resultsContainer s)
                 [i := PaperCard (c\<lparr>card_loading := isLoading, card_disabled := isLoading\<rparr>)]\<rparr>
            | UploadCard u \<Rightarrow> s)
      else s)"

text \<open>
  The try block of \<open>processPaperSummary\<close> with its catch. The value \<open>enqueuePaper\<close>
  returns is not read: the success notice follows the call in every case. In case 1 the
  paper is displayed by the inner try block or, when \<open>pushState\<close> throws, by its catch.
\<close>

definition processPaperSummary_try :: "env \<Rightarrow> paperData \<Rightarrow> jsstring \<Rightarrow> ctx \<Rightarrow> ctx" where
  "processPaperSummary_try e pd sanitizedArxivId s =
     (let s1 = s\<lparr>netlog := netlog s @ [PaperReq sanitizedArxivId]\<rparr>
      in case paperReply e of
           NetworkError \<Rightarrow> showToast msg_could_not Error s1
         | Reply ok Unparsable \<Rightarrow> showToast msg_could_not Error s1
         | Reply ok JsonNull \<Rightarrow>
             showToast msg_queued_summarizing Success (snd (enqueuePaper e pd s1))
         | Reply ok (JsonObj d) \<Rightarrow>
             if hasSummary d \<and> processing d = Some False then
               (let s2 = s1\<lparr>currentPaperData := Some d\<rparr>
                in if \<not> fileProtocol e \<and> pushStateThrows e then displayPaper d s2
                   else displayPaper d s2)
             else if processing d = Some True then showToast msg_being_summarized Info s1
             else if truthy (message d) \<and> includes_str (the (message d)) (js ''No data found'')
             then showToast msg_queued_summarizing Success (snd (enqueuePaper e pd s1))
             else showToast msg_could_not Error s1)"

text \<open>
  \<open>processPaperSummary\<close>. The lock is taken and the sanitized identifier computed before
  the try statement: \<open>sanitizeArxivId(paperData.arxiv_id)\<close> runs when
  \<open>sanitized_arxiv_id\<close> is not truthy, and throws a TypeError when \<open>arxiv_id\<close> is absent.
\<close>

definition processPaperSummary :: "env \<Rightarrow> paperData \<Rightarrow> nat option \<Rightarrow> ctx \<Rightarrow> ctx completion" where
  "processPaperSummary e pd buttonElement s =
     (let s1 = setApiCallState e True s
      in case (if truthy (pd_sanitized_arxiv_id pd) then pd_sanitized_arxiv_id pd
               else map_option sanitizeArxivId (pd_arxiv_id pd)) of
           None \<Rightarrow> Raised TypeError s1
         | Some sanitizedArxivId \<Rightarrow>
             (let s2 = processPaperSummary_try e pd sanitizedArxivId s1;
                  s3 = (case buttonElement of None \<Rightarrow> s2 | Some b \<Rightarrow> setButtonLoading b False s2)
              in Returned (setApiCallState e False s3)))"

section \<open>Fetch of a paper by its identifier\<close>

definition fetchPaper_try :: "env \<Rightarrow> jsstring \<Rightarrow> ctx \<Rightarrow> ctx" where
  "fetchPaper_try e arxivId s =
     (let s1 = showToast msg_loading Info s
      in if fileProtocol e \<and> currentPaperData s1 \<noteq> None
         then displayPaper (the (currentPaperData s1)) s1
         else let s2 = s1\<lparr>netlog := netlog s1 @ [PaperReq arxivId]\<rparr>
              in case paperReply e of
                   NetworkError \<Rightarrow> showToast msg_could_not Error (showSearchView e False s2)
                 | Reply ok Unparsable \<Rightarrow> showToast msg_could_not Error (showSearchView e False s2)
                 | Reply ok JsonNull \<Rightarrow> showToast msg_not_found Error (showSearchView e False s2)
                 | Reply ok (JsonObj d) \<Rightarrow>
                     if hasSummary d \<and> processing d = Some False then displayPaper d s2
                     else if processing d = Some True
                     then showToast msg_being_summarized Info (showSearchView e False s2)
                     else showToast msg_not_found Error (showSearchView e False s2))"

definition fetchPaper :: "env \<Rightarrow> jsstring \<Rightarrow> ctx \<Rightarrow> ctx" where
  "fetchPaper e arxivId s =
     setApiCallState e False (fetchPaper_try e arxivId (setApiCallState e True s))"

section \<open>DedupProbe and UploadPipeline\<close>

text \<open>
  \<open>checkPaperHashExists\<close>: a record when the answer is a success and its body has a
  truthy \<open>arxiv_id\<close>, \<open>null\<close> in every other case.
\<close>

definition checkPaperHashExists :: "env \<Rightarrow> jsstring \<Rightarrow> ctx \<Rightarrow> paper option \<times> ctx" where
  "checkPaperHashExists e hash s =
     (let s1 = s\<lparr>netlog := netlog s @ [HashReq hash]\<rparr>
      in case hashReply e of
           NetworkError \<Rightarrow> (None, s1)
         | Reply ok b \<Rightarrow>
             if \<not> ok then (None, s1)
             else (case b of
                     Unparsable \<Rightarrow> (None, s1)
                   | JsonNull \<Rightarrow> (None, s1)
                   | JsonObj d \<Rightarrow> if truthy (arxiv_id d) then (Some d, s1) else (None, s1)))"

definition setUploadButtonLoading :: "bool \<Rightarrow> ctx \<Rightarrow> ctx" where
  "setUploadButtonLoading isLoading s =
     s\<lparr>uploadButtonLoading := isLoading, uploadButtonDisabled := isLoading\<rparr>"

definition storage_base :: jsstring where
  "storage_base = js ''https://file-upload-papergist.s3.amazonaws.com/''"

text \<open>
  The three branches of \<open>uploadFile\<close> hash the document and probe the backend with the
  same statements: the hash, then the probe when the hash is truthy.
\<close>

definition dedup_probe :: "env \<Rightarrow> payload \<Rightarrow> ctx \<Rightarrow> paper option \<times> ctx" where
  "dedup_probe e pdfBlob s =
     (case generatePdfHash (toLowerCase e) (pdfjsLoaded e) pdfBlob of
        None \<Rightarrow> (None, s)
      | Some pdfHash \<Rightarrow> if pdfHash = [] then (None, s) else checkPaperHashExists e pdfHash s)"

text \<open>
  The branch of a hit: the dialog is closed, the record becomes the current paper and is
  displayed, by the inner try block or by its catch, the file input is cleared and the
  function returns.
\<close>

definition show_existing :: "env \<Rightarrow> paper \<Rightarrow> ctx \<Rightarrow> ctx" where
  "show_existing e matchingPaper s =
     (let s1 = showToast msg_existing Success (s\<lparr>uploadModalShown := False\<rparr>);
          s2 = s1\<lparr>currentPaperData := Some matchingPaper\<rparr>;
          s3 = (if \<not> fileProtocol e \<and> truthy (sanitized_arxiv_id matchingPaper) \<and>
                   pushStateThrows e
                then displayPaper matchingPaper s2
                else displayPaper matchingPaper s2)
      in s3\<lparr>uploadInputFile := None\<rparr>)"

text \<open>
  Step 3, the PUT and what follows it. A request that fails throws, as does an answer
  that is not a success; both are caught by the catch block of \<open>uploadFile\<close>. After a
  success the record is added to \<open>myUploads\<close>, the task is submitted and the success
  notice shown (\<open>enqueuePaper\<close> never throws, so the catch around it never runs), and the
  closing of the dialog is scheduled one second later.
\<close>

definition upload_step3 :: "env \<Rightarrow> upload_file \<Rightarrow> jsstring \<Rightarrow> ctx \<Rightarrow> ctx completion" where
  "upload_step3 e f fileName' s =
     (let s1 = s\<lparr>netlog := netlog s @ [PutReq (storage_base @ fileName')]\<rparr>
      in case putReply e of
           None \<Rightarrow> Raised (Failure (failureMessage e)) s1
         | Some ok \<Rightarrow>
             if \<not> ok then Raised (Failure (js ''Upload failed'')) s1
             else
               (let fileUrl' = storage_base @ fileName';
                    arxivId = js ''manual-upload-'' @ uuid e;
                    dummyPaperData = \<lparr>arxiv_id = Some arxivId,
                       original_arxiv_id = Some arxivId, sanitized_arxiv_id = Some arxivId,
                       title = Some (js ''Upload ID: '' @ arxivId),
                       authors = Some [js ''Manually uploaded''],
                       summary = Some (js ''This document was manually uploaded and is being processed for summarization.''),
                       processing = Some True, message = None, arxivReference = None,
                       primary_category = Some (js ''Manually uploaded''),
                       categories = Some [js ''Manually uploaded''],
                       published = Some (isoDate e), updated = Some (isoDate e),
                       pdf_url = Some fileUrl'\<rparr>;
                    uploadRecord = \<lparr>up_arxiv_id = arxivId, up_sanitized_arxiv_id = arxivId,
                       up_title = js ''Upload ID: '' @ arxivId, uploadDate = isoDate e,
                       fileUrl = fileUrl', fileName = file_name f\<rparr>;
                    s2 = s1\<lparr>myUploads := myUploads s1 @ [uploadRecord]\<rparr>;
                    s3 = snd (enqueuePaper e (OfPaper dummyPaperData) s2);
                    s4 = showToast msg_queued_summarization Success s3
                in Returned (s4\<lparr>timers := timers s4 @ [(1000, UploadDone (file_name f))]\<rparr>)))"

definition upload_catch :: "exn \<Rightarrow> ctx \<Rightarrow> ctx" where
  "upload_catch x s =
     showToast (msg_upload_error (case x of Failure m \<Rightarrow> m | _ \<Rightarrow> [])) Error
       (s\<lparr>uploadModalShown := False\<rparr>)"

text \<open>What follows the reading or the conversion, with the document at hand.\<close>

definition upload_probe_then_put :: "env \<Rightarrow> upload_file \<Rightarrow> jsstring \<Rightarrow> payload \<Rightarrow> ctx \<Rightarrow> ctx" where
  "upload_probe_then_put e f fileName' pdfBlob s =
     (case dedup_probe e pdfBlob s of
        (Some matchingPaper, s1) \<Rightarrow> show_existing e matchingPaper s1
      | (None, s1) \<Rightarrow>
          (case upload_step3 e f fileName' s1 of
             Returned s2 \<Rightarrow> s2
           | Raised x s2 \<Rightarrow> upload_catch x s2))"

text \<open>The try block of \<open>uploadFile\<close> with its catch.\<close>

definition uploadFile_try :: "env \<Rightarrow> upload_file \<Rightarrow> ctx \<Rightarrow> ctx" where
  "uploadFile_try e f s =
     (let extension = toLowerCase e (last_segment (file_name f));
          fileName' = decimal (dateNow e) @ js ''_'' @ strip_extension (file_name f) @ js ''.pdf''
      in if extension = js ''pdf'' then upload_probe_then_put e f fileName' (file_payload f) s
         else if extension = js ''docx'' then
           (case converted e of
              None \<Rightarrow> upload_catch (Failure (failureMessage e)) s
            | Some pdfBlob \<Rightarrow> upload_probe_then_put e f fileName' pdfBlob s)
         else if extension = js ''txt'' then
           (case converted e of
              None \<Rightarrow> upload_catch (Failure (failureMessage e)) s
            | Some pdfBlob \<Rightarrow> upload_probe_then_put e f fileName' pdfBlob s)
         else showToast msg_unsupported Error (s\<lparr>uploadModalShown := False\<rparr>))"

definition uploadFile :: "env \<Rightarrow> ctx \<Rightarrow> ctx" where
  "uploadFile e s =
     (case uploadInputFile s of
        None \<Rightarrow> showToast msg_select_file Error s
      | Some f \<Rightarrow>
          (let s1 = setApiCallState e True s;
               s2 = setUploadButtonLoading True s1;
               s3 = s2\<lparr>uploadModalShown := True\<rparr>;
               s4 = uploadFile_try e f s3;
               s5 = setUploadButtonLoading False s4;
               s6 = setApiCallState e False s5
           in s6\<lparr>uploadInputFile := None\<rparr>))"

text \<open>The callback scheduled by a successful upload, and the firing of the next timer.\<close>

fun run_callback :: "callback \<Rightarrow> ctx \<Rightarrow> ctx completion" where
  "run_callback (UploadDone name) s =
     showUploadsView (showToast (msg_uploaded name) Success (s\<lparr>uploadModalShown := False\<rparr>))"

definition fire_timer :: "ctx \<Rightarrow> ctx" where
  "fire_timer s =
     (case timers s of
        [] \<Rightarrow> s
      | (delay, cb) # rest \<Rightarrow> state_of (run_callback cb (s\<lparr>timers := rest\<rparr>)))"

section \<open>Entry points\<close>

text \<open>
  Where the browser is when \<open>popstate\<close> fires or the page loads: a location that ends in
  \<open>/paper/\<close> and an identifier, one that contains \<open>/paper/\<close> without ending so, or
  another one.
\<close>

datatype location = PaperLocation jsstring | PaperLocationUnmatched | OtherLocation

text \<open>
  The listeners of \<open>setupEventListeners\<close>, of the cards, of the upload button and of
  the upload input. \<open>SearchEnter\<close> is the key press of Enter in the search input;
  \<open>SummarizeClick i\<close> and \<open>UploadCardClick i\<close> are clicks on the card at position \<open>i\<close>
  of the results container; \<open>UploadInputChange\<close> is the change of the upload input, whose
  listener is \<open>uploadFile\<close>.
\<close>

datatype event =
    SearchClick | SearchEnter | SortChange | PrevPageClick | NextPageClick
  | SearchTabClick | UploadsTabClick | ReturnClick | PopState location
  | SummarizeClick nat | UploadCardClick nat | UploadButtonClick | UploadInputChange

definition summarize_click :: "env \<Rightarrow> nat \<Rightarrow> ctx \<Rightarrow> ctx" where
  "summarize_click e i s =
     (if isApiCallInProgress s then showToast msg_wait Info s
      else if i < length (resultsContainer s)
      then (case resultsContainer s ! i of
              PaperCard c \<Rightarrow>
                state_of (processPaperSummary e (OfPaper (data_paper c)) (Some i)
                            (setButtonLoading i True s))
            | UploadCard u \<Rightarrow> s)
      else s)"

definition upload_card_click :: "env \<Rightarrow> nat \<Rightarrow> ctx \<Rightarrow> ctx" where
  "upload_card_click e i s =
     (if \<not> isApiCallInProgress s
      then (if i < length (resultsContainer s)
            then (case resultsContainer s ! i of
                    UploadCard u \<Rightarrow> state_of (processPaperSummary e (OfUpload u) None s)
                  | PaperCard c \<Rightarrow> s)
            else s)
      else showToast msg_wait Info s)"

definition return_click :: "env \<Rightarrow> ctx \<Rightarrow> ctx" where
  "return_click e s =
     (if isApiCallInProgress s then showToast msg_wait Info s
      else if currentView s = UploadsView then state_of (showUploadsView s)
      else showSearchView e False s)"

definition popstate :: "env \<Rightarrow> location \<Rightarrow> ctx \<Rightarrow> ctx" where
  "popstate e loc s =
     (if isApiCallInProgress s then showToast msg_wait Info s
      else case loc of
             PaperLocation paperId \<Rightarrow> fetchPaper e paperId s
           | PaperLocationUnmatched \<Rightarrow> s
           | OtherLocation \<Rightarrow> showSearchView e False s)"

text \<open>The body of the listener of each event. \<open>uploadFile\<close> has no check of the lock.\<close>

fun listener :: "env \<Rightarrow> event \<Rightarrow> ctx \<Rightarrow> ctx" where
  "listener e SearchClick s = handleSearch e s"
| "listener e SearchEnter s = handleSearch e s"
| "listener e SortChange s = handleSortChange e s"
| "listener e PrevPageClick s = handlePageChange e (- 1) s"
| "listener e NextPageClick s = handlePageChange e 1 s"
| "listener e SearchTabClick s =
     (if \<not> isApiCallInProgress s then showSearchView e False s
      else showToast msg_wait Info s)"
| "listener e UploadsTabClick s =
     (if \<not> isApiCallInProgress s then state_of (showUploadsView s)
      else showToast msg_wait Info s)"
| "listener e ReturnClick s = return_click e s"
| "listener e (PopState loc) s = popstate e loc s"
| "listener e (SummarizeClick i) s = summarize_click e i s"
| "listener e (UploadCardClick i) s = upload_card_click e i s"
| "listener e UploadButtonClick s =
     (if \<not> isApiCallInProgress s then s else showToast msg_wait Info s)"
| "listener e UploadInputChange s = uploadFile e s"

text \<open>The paper card, and the upload card, at a position of the results container.\<close>

definition card_at :: "nat \<Rightarrow> ctx \<Rightarrow> card option" where
  "card_at i s =
     (if i < length (resultsContainer s)
      then (case resultsContainer s ! i of PaperCard c \<Rightarrow> Some c | UploadCard u \<Rightarrow> None)
      else None)"

definition upload_at :: "nat \<Rightarrow> ctx \<Rightarrow> upload option" where
  "upload_at i s =
     (if i < length (resultsContainer s)
      then (case resultsContainer s ! i of PaperCard c \<Rightarrow> None | UploadCard u \<Rightarrow> Some u)
      else None)"

text \<open>
  A button, an input or a select that is disabled delivers no click, key press or change:
  its listener does not run. The search button, the search input, the sort select and the
  upload input are under \<open>controlsDisabled\<close>, as are the tabs and the return control
  where the markup makes them buttons; the page buttons, the upload button and the
  summarize buttons have their own flags; an upload card is a \<open>div\<close> and popstate is an
  event of the window, which nothing disables. A card that is not in the results container
  delivers nothing either. Whether a control is displayed is not looked at: the markup
  that nests the controls is not part of the script.
\<close>

fun control_disabled :: "env \<Rightarrow> event \<Rightarrow> ctx \<Rightarrow> bool" where
  "control_disabled e SearchClick s = controlsDisabled s"
| "control_disabled e SearchEnter s = controlsDisabled s"
| "control_disabled e SortChange s = controlsDisabled s"
| "control_disabled e PrevPageClick s = prevPageDisabled s"
| "control_disabled e NextPageClick s = nextPageDisabled s"
| "control_disabled e SearchTabClick s = (tabsAreButtons e \<and> controlsDisabled s)"
| "control_disabled e UploadsTabClick s = (tabsAreButtons e \<and> controlsDisabled s)"
| "control_disabled e ReturnClick s = (returnIsButton e \<and> controlsDisabled s)"
| "control_disabled e (PopState loc) s = False"
| "control_disabled e (SummarizeClick i) s =
     (case card_at i s of None \<Rightarrow> True | Some c \<Rightarrow> card_disabled c)"
| "control_disabled e (UploadCardClick i) s = (upload_at i s = None)"
| "control_disabled e UploadButtonClick s = uploadButtonDisabled s"
| "control_disabled e UploadInputChange s = controlsDisabled s"

text \<open>What an attempt of the user does: nothing on a disabled control, the listener otherwise.\<close>

definition dispatch :: "env \<Rightarrow> event \<Rightarrow> ctx \<Rightarrow> ctx" where
  "dispatch e ev s = (if control_disabled e ev s then s else listener e ev s)"

text \<open>
  The state when the script starts: the initial values of its variables, and a page with
  nothing disabled, the search and results sections displayed and the pagination bar
  hidden.
\<close>

definition start_ctx :: ctx where
  "start_ctx = \<lparr>currentPage = 0, currentQuery = [], currentSortBy = js ''relevance'',
     hasNextPage = False, currentView = SearchView, currentPaperData = None, myUploads = [],
     isApiCallInProgress = False, searchInputValue = [], sortBySelectValue = js ''relevance'',
     uploadInputFile = None, controlsDisabled = False, prevPageDisabled = False,
     nextPageDisabled = False, uploadButtonDisabled = False, uploadButtonLoading = False,
     paginationDisplay = False, pageInfo = 1, resultsContainer = [], paperContent = None,
     paperViewShown = False, searchSectionShown = True, resultsSectionShown = True,
     uploadModalShown = False, toasts = [], netlog = [], timers = []\<rparr>"

text \<open>\<open>initApp\<close>: the stored uploads are loaded, then the location is checked for a paper.\<close>

definition initApp :: "env \<Rightarrow> upload list option \<Rightarrow> location \<Rightarrow> ctx \<Rightarrow> ctx" where
  "initApp e storedUploads loc s =
     (let s1 = (case storedUploads of None \<Rightarrow> s | Some us \<Rightarrow> s\<lparr>myUploads := us\<rparr>)
      in case loc of PaperLocation paperId \<Rightarrow> fetchPaper e paperId s1 | _ \<Rightarrow> s1)"

section \<open>PollLoop: \<open>pollForSummary\<close>\<close>

text \<open>
  The script \<open>app.js\<close> submits a task and polls for its summary. Its state: whether the summary section and the loading indicator are displayed, the
  content of the summary area, the error dialog, the requests for a record sent so far and
  the polls scheduled, each with its delay in milliseconds.
\<close>

record summary_data =
  sm_error :: "jsstring option"
  sm_processing :: "bool option"
  sm_summary :: "jsstring option"
  sm_processing_error :: "jsstring option"
  sm_title :: "jsstring option"
  sm_authors :: "jsstring list option"

record app_ctx =
  summarySectionShown :: bool
  loadingIndicatorShown :: bool
  summaryContent :: "paper_display option"
  errorMessage :: jsstring
  errorModalShown :: bool
  enqueue_requests :: "(jsstring \<times> jsstring) list"
  poll_requests :: "jsstring list"
  poll_timers :: "(nat \<times> jsstring) list"

definition msg_summary_failed :: jsstring where
  "msg_summary_failed = js ''Failed to fetch summary. Please try again.''"

definition msg_request_failed :: jsstring where
  "msg_request_failed = js ''Failed to request summary. Please try again.''"

definition showError :: "jsstring \<Rightarrow> app_ctx \<Rightarrow> app_ctx" where
  "showError m s = s\<lparr>errorMessage := m, errorModalShown := True\<rparr>"

text \<open>
  One run of \<open>pollForSummary\<close>, from the request to the handling of its answer. A
  \<open>null\<close> body makes \<open>data.error\<close> throw, and a record without authors makes
  \<open>data.authors.join\<close> throw after the loading indicator is hidden; both end in the catch
  block. An absent title prints as \<open>undefined\<close>.
\<close>

definition pollForSummary_step :: "summary_data reply \<Rightarrow> jsstring \<Rightarrow> app_ctx \<Rightarrow> app_ctx" where
  "pollForSummary_step r arxivId s =
     (let s1 = s\<lparr>poll_requests := poll_requests s @ [arxivId]\<rparr>
      in case r of
           NetworkError \<Rightarrow> showError msg_summary_failed s1
         | Reply ok Unparsable \<Rightarrow> showError msg_summary_failed s1
         | Reply ok JsonNull \<Rightarrow> showError msg_summary_failed s1
         | Reply ok (JsonObj d) \<Rightarrow>
             if truthy (sm_error d) then showError (the (sm_error d)) s1
             else if sm_processing d = Some True
             then s1\<lparr>poll_timers := poll_timers s1 @ [(5000, arxivId)]\<rparr>
             else if truthy (sm_summary d) then
               (let s2 = s1\<lparr>loadingIndicatorShown := False\<rparr>
                in case sm_authors d of
                     None \<Rightarrow> showError msg_summary_failed s2
                   | Some a \<Rightarrow> s2\<lparr>summaryContent := Some \<lparr>
                        shown_title = (case sm_title d of None \<Rightarrow> js ''undefined'' | Some t \<Rightarrow> t),
                        shown_authors = join (js '', '') a,
                        shown_summary = the (sm_summary d)\<rparr>\<rparr>)
             else if truthy (sm_processing_error d) then showError (the (sm_processing_error d)) s1
             else s1)"

text \<open>
  The loop over the answers observed so far: when a run has scheduled a poll, the timer
  fires and the next run handles the next answer.
\<close>

fun pollForSummary :: "summary_data reply list \<Rightarrow> jsstring \<Rightarrow> app_ctx \<Rightarrow> app_ctx" where
  "pollForSummary [] arxivId s = s"
| "pollForSummary (r # rs) arxivId s =
     (let s1 = pollForSummary_step r arxivId s
      in if length (poll_timers s) < length (poll_timers s1)
         then pollForSummary rs arxivId (s1\<lparr>poll_timers := butlast (poll_timers s1)\<rparr>)
         else s1)"

text \<open>\<open>requestSummary\<close>: the task is submitted, and polled for when the backend accepts it.\<close>

definition requestSummary ::
    "error_data reply \<Rightarrow> summary_data reply list \<Rightarrow> jsstring \<Rightarrow> jsstring \<Rightarrow> app_ctx \<Rightarrow> app_ctx" where
  "requestSummary r polls arxivId pdfUrl s =
     (let s1 = s\<lparr>summarySectionShown := True, loadingIndicatorShown := True,
                 summaryContent := None,
                 enqueue_requests := enqueue_requests s @ [(arxivId, pdfUrl)]\<rparr>
      in case r of
           NetworkError \<Rightarrow> showError msg_request_failed s1
         | Reply ok Unparsable \<Rightarrow> showError msg_request_failed s1
         | Reply ok JsonNull \<Rightarrow> showError msg_request_failed s1
         | Reply ok (JsonObj d) \<Rightarrow>
             if truthy (err d) then showError (the (err d)) s1
             else pollForSummary polls arxivId s1)"

text \<open>
  How a run ends, read off the states before and after it: the summary is displayed and
  the loading indicator hidden; a notice is shown in the error dialog; or one poll is
  scheduled 5000 milliseconds later, with one request sent and nothing displayed.
\<close>

definition poll_success :: "jsstring \<Rightarrow> app_ctx \<Rightarrow> app_ctx \<Rightarrow> bool" where
  "poll_success text s s' \<longleftrightarrow>
     (case summaryContent s' of None \<Rightarrow> False | Some c \<Rightarrow> shown_summary c = text) \<and>
     \<not> loadingIndicatorShown s' \<and> poll_timers s' = poll_timers s \<and>
     errorModalShown s' = errorModalShown s \<and> errorMessage s' = errorMessage s"

definition poll_failure :: "jsstring \<Rightarrow> app_ctx \<Rightarrow> app_ctx \<Rightarrow> bool" where
  "poll_failure notice s s' \<longleftrightarrow>
     errorModalShown s' \<and> errorMessage s' = notice \<and> poll_timers s' = poll_timers s \<and>
     summaryContent s' = summaryContent s"

definition poll_continue :: "jsstring \<Rightarrow> app_ctx \<Rightarrow> app_ctx \<Rightarrow> bool" where
  "poll_continue arxivId s s' \<longleftrightarrow>
     poll_timers s' = poll_timers s @ [(5000, arxivId)] \<and>
     poll_requests s' = poll_requests s @ [arxivId] \<and>
     errorModalShown s' = errorModalShown s \<and> errorMessage s' = errorMessage s \<and>
     summaryContent s' = summaryContent s \<and>
     loadingIndicatorShown s' = loadingIndicatorShown s"

definition start_app :: app_ctx where
  "start_app = \<lparr>summarySectionShown = True, loadingIndicatorShown = True, summaryContent = None,
     errorMessage = [], errorModalShown = False, enqueue_requests = [], poll_requests = [],
     poll_timers = []\<rparr>"

definition empty_summary_data :: summary_data where
  "empty_summary_data = \<lparr>sm_error = None, sm_processing = None, sm_summary = None,
     sm_processing_error = None, sm_title = None, sm_authors = None\<rparr>"

section \<open>Sample inputs\<close>

definition paper_a :: paper where
  "paper_a = empty_paper\<lparr>arxiv_id := Some (js ''2401.00001''), title := Some (js ''A''),
     authors := Some [js ''Ann'']\<rparr>"

text \<open>A search result without an identifier.\<close>

definition paper_noid :: paper where
  "paper_noid = empty_paper\<lparr>title := Some (js ''B''), authors := Some [js ''Bob'']\<rparr>"

definition results_a :: search_data where
  "results_a = \<lparr>sd_error = None, papers = Some [paper_a], has_next_page = Some True\<rparr>"

definition env0 :: env where
  "env0 = \<lparr>toLowerCase = latin_lower, pdfjsLoaded = True, fileProtocol = False,
     pushStateThrows = False, windowPagerProps = False, tabsAreButtons = False,
     returnIsButton = True, dateNow = 1700000000000,
     uuid = js ''u1'', isoDate = js ''2025-01-01T00:00:00.000Z'',
     failureMessage = js ''Failed to fetch'', converted = None,
     searchReply = Reply True (JsonObj results_a),
     paperReply = Reply True JsonNull, hashReply = Reply False Unparsable,
     putReply = Some True, enqueueReply = Reply True (JsonObj \<lparr>err = None\<rparr>)\<rparr>"

text \<open>The state while an operation is in flight, and the state after a click on the uploads tab.\<close>

definition busy_ctx :: ctx where
  "busy_ctx = setApiCallState env0 True start_ctx"

definition uploads_ctx :: ctx where
  "uploads_ctx = dispatch env0 UploadsTabClick start_ctx"

text \<open>The state with a query typed into the search input.\<close>

definition typed_ctx :: ctx where
  "typed_ctx = start_ctx\<lparr>searchInputValue := js ''ml''\<rparr>"

text \<open>
  A backend whose search answers with the paper that has no identifier, and the state
  after a search against it.
\<close>

definition env_noid :: env where
  "env_noid = env0\<lparr>searchReply := Reply True (JsonObj
     \<lparr>sd_error = None, papers = Some [paper_noid], has_next_page = Some False\<rparr>)\<rparr>"

definition listed_ctx :: ctx where
  "listed_ctx = dispatch env_noid SearchClick typed_ctx"

text \<open>A backend that has no record of the paper and rejects the task.\<close>

definition env_reject :: env where
  "env_reject = env0\<lparr>enqueueReply := Reply True (JsonObj \<lparr>err = Some (js ''queue unavailable'')\<rparr>)\<rparr>"

text \<open>A PDF chosen for upload whose text cannot be read, so that the probe is skipped.\<close>

definition pdf_ctx :: ctx where
  "pdf_ctx = start_ctx\<lparr>uploadInputFile :=
     Some \<lparr>file_name = js ''a.PDF'', file_payload = Unreadable\<rparr>\<rparr>"

text \<open>
  A text file chosen for upload, its conversion, and a backend that knows the fingerprint
  of the converted document.
\<close>

definition paper_cached :: paper where
  "paper_cached = empty_paper\<lparr>arxiv_id := Some (js ''manual-upload-7''),
     title := Some (js ''Notes''), authors := Some [js ''Manually uploaded''],
     summary := Some (js ''Short''), processing := Some False\<rparr>"

definition env_hit :: env where
  "env_hit = env0\<lparr>converted := Some (one_run_doc (js ''Hello World'')),
     hashReply := Reply True (JsonObj paper_cached)\<rparr>"

definition txt_ctx :: ctx where
  "txt_ctx = start_ctx\<lparr>uploadInputFile :=
     Some \<lparr>file_name = js ''notes.txt'', file_payload = Unreadable\<rparr>\<rparr>"

text \<open>The requests sent between two states.\<close>

definition new_requests :: "ctx \<Rightarrow> ctx \<Rightarrow> request list" where
  "new_requests s s' = drop (length (netlog s)) (netlog s')"

text \<open>Answers to a poll.\<close>

definition still_processing :: summary_data where
  "still_processing = empty_summary_data\<lparr>sm_processing := Some True\<rparr>"

definition summary_ready :: summary_data where
  "summary_ready = empty_summary_data\<lparr>sm_processing := Some False, sm_summary := Some (js ''S''),
     sm_title := Some (js ''T''), sm_authors := Some [js ''Ann'', js ''Bob'']\<rparr>"

definition processing_failed :: summary_data where
  "processing_failed = empty_summary_data\<lparr>sm_processing := Some False,
     sm_processing_error := Some (js ''failed'')\<rparr>"

definition processing_with_error :: summary_data where
  "processing_with_error = empty_summary_data\<lparr>sm_processing := Some True,
     sm_processing_error := Some (js ''failed'')\<rparr>"

section \<open>Traces\<close>

text \<open>
  The search requests among the requests sent; the state of a cleared query, in which the
  stored query is empty and the pagination bar hidden; the events that submit a query; the
  events other than these and the clicks on the two page buttons. What can happen to the
  client is an attempt of the user on a control, the typing of a text into the search
  input, the choice of a file in the upload input (the browser stores the file and fires
  the change), or the firing of a timer; \<open>run_steps\<close> runs a list of these, each with
  the answers it gets. Two states have the same query when they agree on the stored query,
  on the display of the pagination bar and on the search requests.
\<close>

fun is_search_req :: "request \<Rightarrow> bool" where
  "is_search_req (SearchReq q p srt) = True"
| "is_search_req r = False"

definition search_requests :: "ctx \<Rightarrow> request list" where
  "search_requests s = filter is_search_req (netlog s)"

definition query_cleared :: "ctx \<Rightarrow> bool" where
  "query_cleared s \<longleftrightarrow> currentQuery s = [] \<and> \<not> paginationDisplay s"

fun submits_query :: "event \<Rightarrow> bool" where
  "submits_query SearchClick = True"
| "submits_query SearchEnter = True"
| "submits_query ev = False"

fun quiet_event :: "event \<Rightarrow> bool" where
  "quiet_event SearchClick = False"
| "quiet_event SearchEnter = False"
| "quiet_event PrevPageClick = False"
| "quiet_event NextPageClick = False"
| "quiet_event ev = True"

datatype step = UserEvent event | Typed jsstring | FileChosen upload_file | TimerFired

fun perform :: "env \<Rightarrow> step \<Rightarrow> ctx \<Rightarrow> ctx" where
  "perform e (UserEvent ev) s = dispatch e ev s"
| "perform e (Typed t) s = (if controlsDisabled s then s else s\<lparr>searchInputValue := t\<rparr>)"
| "perform e (FileChosen f) s =
     (if controlsDisabled s then s
      else dispatch e UploadInputChange (s\<lparr>uploadInputFile := Some f\<rparr>))"
| "perform e TimerFired s = fire_timer s"

fun submitting_step :: "step \<Rightarrow> bool" where
  "submitting_step (UserEvent ev) = submits_query ev"
| "submitting_step st = False"

fun quiet_step :: "step \<Rightarrow> bool" where
  "quiet_step (UserEvent ev) = quiet_event ev"
| "quiet_step st = True"

fun run_steps :: "(env \<times> step) list \<Rightarrow> ctx \<Rightarrow> ctx" where
  "run_steps [] s = s"
| "run_steps ((e, st) # sts) s = run_steps sts (perform e st s)"

definition same_query :: "ctx \<Rightarrow> ctx \<Rightarrow> bool" where
  "same_query s s' \<longleftrightarrow> currentQuery s' = currentQuery s \<and>
     paginationDisplay s' = paginationDisplay s \<and> search_requests s' = search_requests s"

text \<open>The state after a first search.\<close>

definition searched_ctx :: ctx where
  "searched_ctx = dispatch env0 SearchClick typed_ctx"

section \<open>Reference notions\<close>

text \<open>
  A record as the paper view shows it: its title, its authors separated by a comma and a
  space, and its summary, each taken from the record or, where the record has none, from
  its \<open>arxivReference\<close>; an empty text where neither has it.
\<close>

definition ref_field :: "(arxiv_ref \<Rightarrow> 'a option) \<Rightarrow> paper \<Rightarrow> 'a option" where
  "ref_field field m = (case arxivReference m of None \<Rightarrow> None | Some r \<Rightarrow> field r)"

definition text_or :: "jsstring option \<Rightarrow> jsstring option \<Rightarrow> jsstring" where
  "text_or own other =
     (case own of
        Some t \<Rightarrow> if t \<noteq> [] then t else (case other of Some u \<Rightarrow> u | None \<Rightarrow> [])
      | None \<Rightarrow> (case other of Some u \<Rightarrow> u | None \<Rightarrow> []))"

definition shown_record :: "paper \<Rightarrow> paper_display" where
  "shown_record m =
     \<lparr>shown_title = text_or (title m) (ref_field ref_title m),
      shown_authors = join (js '', '')
        (case authors m of Some a \<Rightarrow> a
         | None \<Rightarrow> (case ref_field ref_authors m of Some a \<Rightarrow> a | None \<Rightarrow> [])),
      shown_summary = text_or (summary m) (ref_field ref_summary m)\<rparr>"

text \<open>
  The lock as the script holds it: \<open>setApiCallState(true)\<close> sets the flag and disables
  every button, input and select, and nothing enables one of them before the release.
\<close>

fun item_disabled :: "item \<Rightarrow> bool" where
  "item_disabled (PaperCard c) = card_disabled c"
| "item_disabled (UploadCard u) = True"

definition controls_locked :: "ctx \<Rightarrow> bool" where
  "controls_locked s \<longleftrightarrow>
     isApiCallInProgress s \<and> controlsDisabled s \<and> prevPageDisabled s \<and> nextPageDisabled s \<and>
     uploadButtonDisabled s \<and> list_all item_disabled (resultsContainer s)"

text \<open>
  The attempts that reach a listener while the lock is held: popstate, a click on an
  upload card that is there, and a click on a tab or on the return control where the
  markup does not make it a button.
\<close>

fun refused_with_notice :: "env \<Rightarrow> event \<Rightarrow> ctx \<Rightarrow> bool" where
  "refused_with_notice e (PopState loc) s = True"
| "refused_with_notice e (UploadCardClick i) s = (upload_at i s \<noteq> None)"
| "refused_with_notice e SearchTabClick s = (\<not> tabsAreButtons e)"
| "refused_with_notice e UploadsTabClick s = (\<not> tabsAreButtons e)"
| "refused_with_notice e ReturnClick s = (\<not> returnIsButton e)"
| "refused_with_notice e ev s = False"

section \<open>Properties of the ContentHasher\<close>

lemma filter_dropWhile_ws:
  "filter (\<lambda>c. \<not> P c) (dropWhile P xs) = filter (\<lambda>c. \<not> P c) xs"
  by (induction xs) auto

lemma replace_ws_runs_filter:
  "replace_ws_runs s = filter (\<lambda>c. \<not> isWhiteSpace c) s"
  by (induction s rule: replace_ws_runs.induct) (auto simp: filter_dropWhile_ws)

lemma join_empty_concat: "join [] xs = concat xs"
  by (induction "[] :: jsstring" xs rule: join.induct) auto

lemma generatePdfHash_Some:
  "generatePdfHash lower True (Document (Some items # ps)) =
     Some (lower (filter (\<lambda>c. \<not> isWhiteSpace c) (take 48 (concat (map str items)))))"
  by (simp add: generatePdfHash_def slice0_def replace_ws_runs_filter join_empty_concat)

text \<open>The fingerprint in terms of the text of the first page.\<close>

lemma generatePdfHash_first_page_text:
  "generatePdfHash lower loaded p =
     (if \<not> loaded then None
      else map_option (\<lambda>t. lower (filter (\<lambda>c. \<not> isWhiteSpace c) (take 48 t)))
             (first_page_text p))"
proof (cases loaded)
  case False
  then show ?thesis by (simp add: generatePdfHash_def)
next
  case True
  show ?thesis
  proof (cases p)
    case Unreadable
    with True show ?thesis
      by (simp add: generatePdfHash_def first_page_text_def first_page_runs_def)
  next
    case (Document ps)
    show ?thesis
    proof (cases ps)
      case Nil
      with True Document show ?thesis
        by (simp add: generatePdfHash_def first_page_text_def first_page_runs_def)
    next
      case (Cons pg rest)
      show ?thesis
      proof (cases pg)
        case None
        with True Document Cons show ?thesis
          by (simp add: generatePdfHash_def first_page_text_def first_page_runs_def)
      next
        case (Some items)
        with True Document Cons show ?thesis
          by (simp add: generatePdfHash_Some first_page_text_def first_page_runs_def)
      qed
    qed
  qed
qed

text \<open>
  C5. For every payload the fingerprint computed by \<open>generatePdfHash\<close> is the one of the
  reference definition: first page only, runs concatenated, first 48 characters, white
  space removed, lowercased; and a failure where the reference definition fails.
\<close>

theorem generatePdfHash_refines_spec:
  "generatePdfHash lower loaded p = fingerprint_spec lower loaded p"
proof -
  have "fingerprint_spec lower loaded p =
        (if \<not> loaded then None
         else map_option (\<lambda>t. lower (filter (\<lambda>c. \<not> isWhiteSpace c) (take 48 t)))
                (first_page_text p))"
    by (simp add: fingerprint_spec_def first_page_text_def option.map_comp comp_def)
  then show ?thesis
    by (simp only: generatePdfHash_first_page_text)
qed

text \<open>
  C6, as stated: two payloads whose first-page texts agree on the first 48 characters that
  remain after white space stripping get the same fingerprint. It fails: the code takes
  the 48 characters before it strips. \<open>doc_spaced\<close> is an a, 47 spaces and a b;
  \<open>doc_tight\<close> is ab.
\<close>

theorem stripped_prefix_counterexample:
  "stripped_prefix doc_spaced = stripped_prefix doc_tight \<and>
   generatePdfHash latin_lower True doc_spaced \<noteq> generatePdfHash latin_lower True doc_tight"
  by (simp add: stripped_prefix_def first_page_text_def first_page_runs_def strip_ws_def
      doc_spaced_def doc_tight_def one_run_doc_def generatePdfHash_Some js_def isWhiteSpace_def
      latin_lower_def)

text \<open>
  C6, amended: two payloads whose first-page texts agree on their first 48 characters, as
  they are before any white space is removed, get the same fingerprint (or both fail).
\<close>

theorem raw_prefix_same_fingerprint:
  assumes "raw_prefix p = raw_prefix q"
  shows "generatePdfHash lower loaded p = generatePdfHash lower loaded q"
proof -
  have "generatePdfHash lower loaded d =
        (if \<not> loaded then None
         else map_option (\<lambda>t. lower (filter (\<lambda>c. \<not> isWhiteSpace c) t)) (raw_prefix d))" for d
    by (simp add: generatePdfHash_first_page_text raw_prefix_def option.map_comp comp_def)
  with assms show ?thesis by simp
qed

theorem raw_prefix_same_fingerprint_witness:
  "raw_prefix doc_long1 = raw_prefix doc_long2 \<and> doc_long1 \<noteq> doc_long2 \<and>
   generatePdfHash latin_lower True doc_long1 = generatePdfHash latin_lower True doc_long2"
proof -
  have h: "raw_prefix doc_long1 = raw_prefix doc_long2"
    by (simp add: raw_prefix_def first_page_text_def first_page_runs_def doc_long1_def
        doc_long2_def js_def replicate_add [symmetric])
  have d: "doc_long1 \<noteq> doc_long2"
    by (simp add: doc_long1_def doc_long2_def)
  from raw_prefix_same_fingerprint [OF h, of latin_lower True] h d show ?thesis by simp
qed

section \<open>Evaluation of the sample inputs\<close>

lemmas ui_defs = setApiCallState_def disableAllUIInteractions_def enableAllUIInteractions_def
  showToast_def show_pagination_def showSearchView_def displayPaper_def showPaperView_def
  setButtonLoading_def setUploadButtonLoading_def

lemma js_Nil [simp]: "js s = [] \<longleftrightarrow> s = []"
  by (simp add: js_def)

lemma js_eq_iff [simp]: "js a = js b \<longleftrightarrow> a = b"
  by (simp add: js_def inj_map_eq_map [OF inj_of_char])

lemma ext_txt: "latin_lower (last_segment (js ''notes.txt'')) = js ''txt''"
  by (simp add: last_segment_def latin_lower_def js_def)

lemma ext_pdf: "latin_lower (last_segment (js ''a.PDF'')) = js ''pdf''"
  by (simp add: last_segment_def latin_lower_def js_def)

lemma hash_hello:
  "generatePdfHash latin_lower True (one_run_doc (js ''Hello World'')) = Some (js ''helloworld'')"
  by (simp add: one_run_doc_def generatePdfHash_Some js_def isWhiteSpace_def latin_lower_def)

lemma trim_ml: "trim (js ''ml'') = js ''ml''"
  by (simp add: trim_def js_def isWhiteSpace_def)

section \<open>Properties of the ViewController\<close>

lemma listener_locked:
  assumes "isApiCallInProgress s" "ev \<noteq> UploadInputChange"
  shows "listener e ev s = showToast msg_wait Info s"
  using assms
  by (cases ev)
     (simp_all add: handleSearch_def handleSortChange_def handlePageChange_def return_click_def
        popstate_def summarize_click_def upload_card_click_def)

text \<open>Taking the lock disables every control.\<close>

lemma list_all_set_item_disabled:
  "list_all item_disabled (map (set_item_disabled True) xs)"
proof (induction xs)
  case Nil
  show ?case by simp
next
  case (Cons x xs)
  then show ?case by (cases x) simp_all
qed

lemma acquire_locks_controls: "controls_locked (setApiCallState e True s)"
  by (simp add: controls_locked_def setApiCallState_def disableAllUIInteractions_def
      list_all_set_item_disabled)

lemma locked_card_disabled:
  assumes "list_all item_disabled (resultsContainer s)" "card_at i s = Some c"
  shows "card_disabled c"
proof -
  from assms(2) have i: "i < length (resultsContainer s)" "resultsContainer s ! i = PaperCard c"
    by (auto simp: card_at_def split: if_splits item.splits)
  from assms(1) i(1) have "item_disabled (resultsContainer s ! i)"
    by (simp add: list_all_length)
  with i(2) show ?thesis by simp
qed

text \<open>
  The listener of the upload input has no check of the lock: run while the lock is held,
  with a file chosen, it goes through the upload and releases the lock.
\<close>

lemma uploadFile_without_lock_check:
  assumes "isApiCallInProgress s" "uploadInputFile s = Some f"
  shows "\<not> isApiCallInProgress (listener e UploadInputChange s)"
  using assms(2) by (simp add: uploadFile_def setApiCallState_def enableAllUIInteractions_def Let_def)

text \<open>
  C3, as stated: under the lock every entry point is refused with a notice. It fails for
  the controls that the lock disables: while an operation is in flight, a click on the
  search button reaches no listener, and the state, its notices included, stays as it is.
\<close>

theorem disabled_search_counterexample:
  "isApiCallInProgress busy_ctx \<and> dispatch env0 SearchClick busy_ctx = busy_ctx \<and>
   toasts (dispatch env0 SearchClick busy_ctx) = []"
  by (simp add: dispatch_def busy_ctx_def setApiCallState_def disableAllUIInteractions_def
      start_ctx_def)

text \<open>
  C3, amended: while the lock is held, as the script holds it with every button, input
  and select disabled, no attempt of the user changes the state or is queued. Popstate, a
  click on an upload card and, where the markup does not make them buttons, a click on a
  tab or on the return control reach their listener, which refuses with the notice that
  an operation is in progress. Query submission, sort change, page change, the summarize
  buttons, the upload button and the upload input (and the tabs and the return control
  where they are buttons) are disabled: the attempt reaches no listener and is dropped
  without a notice.
\<close>

theorem lock_refuses_or_drops:
  assumes "controls_locked s"
  shows "dispatch e ev s =
           (if refused_with_notice e ev s then s\<lparr>toasts := toasts s @ [(msg_wait, Info)]\<rparr>
            else s)"
proof -
  from assms have l: "isApiCallInProgress s" and c: "controlsDisabled s"
    and p: "prevPageDisabled s" "nextPageDisabled s" and u: "uploadButtonDisabled s"
    and cards: "list_all item_disabled (resultsContainer s)"
    by (simp_all add: controls_locked_def)
  have toast: "listener e ev s = s\<lparr>toasts := toasts s @ [(msg_wait, Info)]\<rparr>"
    if "ev \<noteq> UploadInputChange"
    using listener_locked [OF l that] by (simp add: showToast_def)
  show ?thesis
  proof (cases ev)
    case (SummarizeClick i)
    have "control_disabled e (SummarizeClick i) s"
      using locked_card_disabled [OF cards] by (cases "card_at i s") simp_all
    with SummarizeClick show ?thesis by (simp add: dispatch_def)
  next
    case (UploadCardClick i)
    with toast show ?thesis by (simp add: dispatch_def)
  next
    case (PopState loc)
    with toast show ?thesis by (simp add: dispatch_def)
  next
    case SearchTabClick
    with toast c show ?thesis by (simp add: dispatch_def)
  next
    case UploadsTabClick
    with toast c show ?thesis by (simp add: dispatch_def)
  next
    case ReturnClick
    with toast c show ?thesis by (simp add: dispatch_def)
  qed (use c p u in \<open>simp_all add: dispatch_def\<close>)
qed

theorem lock_refuses_or_drops_witness:
  "controls_locked busy_ctx \<and>
   dispatch env0 (PopState OtherLocation) busy_ctx = busy_ctx\<lparr>toasts := [(msg_wait, Info)]\<rparr> \<and>
   dispatch env0 SearchTabClick busy_ctx = busy_ctx\<lparr>toasts := [(msg_wait, Info)]\<rparr> \<and>
   dispatch env0 ReturnClick busy_ctx = busy_ctx \<and>
   dispatch env0 NextPageClick busy_ctx = busy_ctx \<and>
   dispatch env0 UploadInputChange busy_ctx = busy_ctx"
proof -
  have h: "controls_locked busy_ctx"
    by (simp add: busy_ctx_def controls_locked_def setApiCallState_def
        disableAllUIInteractions_def start_ctx_def)
  have t: "toasts busy_ctx = []"
    by (simp add: busy_ctx_def setApiCallState_def disableAllUIInteractions_def start_ctx_def)
  have e: "\<not> tabsAreButtons env0" "returnIsButton env0"
    by (simp_all add: env0_def)
  from lock_refuses_or_drops [OF h, of env0 "PopState OtherLocation"]
    lock_refuses_or_drops [OF h, of env0 SearchTabClick]
    lock_refuses_or_drops [OF h, of env0 ReturnClick]
    lock_refuses_or_drops [OF h, of env0 NextPageClick]
    lock_refuses_or_drops [OF h, of env0 UploadInputChange] h t e
  show ?thesis by simp
qed

lemma uploads_ctx_facts:
  "currentView uploads_ctx = UploadsView" "\<not> isApiCallInProgress uploads_ctx"
  "currentPage uploads_ctx = 0" "netlog uploads_ctx = []" "\<not> nextPageDisabled uploads_ctx"
  by (simp_all add: uploads_ctx_def dispatch_def env0_def showUploadsView_def
      displayUploadsList_def start_ctx_def Let_def)

text \<open>
  C9, as stated: a page change triggered outside the Search view leaves the page index
  unchanged. It fails: \<open>handlePageChange\<close> adds the delta before it looks at the view.
  After a click on the uploads tab, a click on the next-page button moves the index from
  0 to 1.
\<close>

theorem page_change_counterexample:
  "currentView uploads_ctx \<noteq> SearchView \<and> currentPage uploads_ctx = 0 \<and>
   currentPage (dispatch env0 NextPageClick uploads_ctx) = 1"
  by (simp add: dispatch_def uploads_ctx_facts handlePageChange_def)

text \<open>
  C9, amended: a page change triggered outside the Search view sends no request and
  changes nothing but the page index, which it moves by the delta; under the lock it only
  adds the notice.
\<close>

theorem page_change_outside_search:
  assumes "currentView s \<noteq> SearchView"
  shows "netlog (handlePageChange e delta s) = netlog s \<and>
         handlePageChange e delta s =
           (if isApiCallInProgress s then s\<lparr>toasts := toasts s @ [(msg_wait, Info)]\<rparr>
            else s\<lparr>currentPage := currentPage s + delta\<rparr>)"
  using assms by (simp add: handlePageChange_def showToast_def)

theorem page_change_outside_search_witness:
  "currentView uploads_ctx \<noteq> SearchView \<and>
   netlog (handlePageChange env0 1 uploads_ctx) = netlog uploads_ctx \<and>
   handlePageChange env0 1 uploads_ctx = uploads_ctx\<lparr>currentPage := 1\<rparr>"
proof -
  have h: "currentView uploads_ctx \<noteq> SearchView"
    by (simp add: uploads_ctx_facts)
  have l: "\<not> isApiCallInProgress uploads_ctx" and p: "currentPage uploads_ctx = 0"
    by (simp_all add: uploads_ctx_facts)
  from page_change_outside_search [OF h, of env0 1] h l p show ?thesis by simp
qed

lemma same_query_refl [simp]: "same_query s s"
  by (simp add: same_query_def)

lemma same_query_trans: "same_query s s' \<Longrightarrow> same_query s' s'' \<Longrightarrow> same_query s s''"
  by (simp add: same_query_def)

lemma sq_setApiCallState [simp]: "same_query s (setApiCallState e b s)"
  by (simp add: same_query_def search_requests_def setApiCallState_def
      disableAllUIInteractions_def enableAllUIInteractions_def Let_def)

lemma sq_showToast [simp]: "same_query s (showToast m t s)"
  by (simp add: same_query_def search_requests_def showToast_def)

lemma sq_displayPaper [simp]: "same_query s (displayPaper p s)"
  by (simp add: same_query_def search_requests_def displayPaper_def showPaperView_def Let_def)

lemma sq_setButtonLoading [simp]: "same_query s (setButtonLoading i b s)"
  by (simp add: same_query_def search_requests_def setButtonLoading_def split: item.splits)

lemma sq_enqueuePaper [simp]: "same_query s (snd (enqueuePaper e pd s))"
  by (simp add: same_query_def search_requests_def enqueuePaper_def Let_def
      split: reply.splits body.splits)

lemma sq_processPaperSummary_try [simp]: "same_query s (processPaperSummary_try e pd i s)"
  by (simp add: same_query_def search_requests_def processPaperSummary_try_def enqueuePaper_def
      showToast_def displayPaper_def showPaperView_def Let_def split: reply.splits body.splits)

lemma sq_processPaperSummary [simp]: "same_query s (state_of (processPaperSummary e pd b s))"
  using sq_setApiCallState [of s e True]
  by (auto simp: processPaperSummary_def Let_def split: option.splits
      intro!: same_query_trans [OF _ sq_setApiCallState] same_query_trans [OF _ sq_setButtonLoading]
      intro: same_query_trans [OF _ sq_processPaperSummary_try])

lemma qc_same: "query_cleared s \<Longrightarrow> same_query s s' \<Longrightarrow> query_cleared s' \<and> search_requests s' = search_requests s"
  by (simp add: query_cleared_def same_query_def)

lemma qc_showSearchView:
  "currentQuery s = [] \<Longrightarrow> query_cleared (showSearchView e skip s) \<and>
     search_requests (showSearchView e skip s) = search_requests s"
  by (simp add: query_cleared_def showSearchView_def show_pagination_def search_requests_def Let_def)

lemma qc_showUploadsView:
  "query_cleared (state_of (showUploadsView s)) \<and>
   search_requests (state_of (showUploadsView s)) = search_requests s"
  by (simp add: query_cleared_def showUploadsView_def displayUploadsList_def search_requests_def Let_def)

lemma qc_fetchPaper_try:
  assumes "query_cleared s"
  shows "query_cleared (fetchPaper_try e i s) \<and>
     search_requests (fetchPaper_try e i s) = search_requests s"
proof -
  have a: "query_cleared (showToast m t (showSearchView e False s')) \<and>
           search_requests (showToast m t (showSearchView e False s')) = search_requests s'"
      if "currentQuery s' = []" for m t s'
    using qc_showSearchView [OF that, of e False] qc_same [OF _ sq_showToast] by simp
  have b: "query_cleared (displayPaper p s') \<and> search_requests (displayPaper p s') = search_requests s'"
      if "query_cleared s'" for p s'
    using qc_same [OF that sq_displayPaper] .
  have c: "query_cleared (showToast m t s)" "search_requests (showToast m t s) = search_requests s"
     "currentQuery (showToast m t s) = []" for m t
    using assms by (simp_all add: query_cleared_def showToast_def search_requests_def)
  have d: "query_cleared (s'\<lparr>netlog := netlog s' @ [PaperReq i]\<rparr>)"
    "search_requests (s'\<lparr>netlog := netlog s' @ [PaperReq i]\<rparr>) = search_requests s'"
    "currentQuery (s'\<lparr>netlog := netlog s' @ [PaperReq i]\<rparr>) = currentQuery s'"
    if "query_cleared s'" for s'
    using that by (simp_all add: query_cleared_def search_requests_def)
  show ?thesis
    unfolding fetchPaper_try_def Let_def
    using a b c d by (simp split: reply.splits body.splits)
qed

lemma qc_fetchPaper:
  assumes "query_cleared s"
  shows "query_cleared (fetchPaper e i s) \<and> search_requests (fetchPaper e i s) = search_requests s"
proof -
  have 1: "query_cleared (setApiCallState e True s)"
     "search_requests (setApiCallState e True s) = search_requests s"
    using qc_same [OF assms sq_setApiCallState] by simp_all
  from qc_fetchPaper_try [OF 1(1)] 1(2) qc_same [OF _ sq_setApiCallState]
  show ?thesis by (simp add: fetchPaper_def)
qed

lemma sq_checkPaperHashExists [simp]: "same_query s (snd (checkPaperHashExists e h s))"
  by (simp add: same_query_def search_requests_def checkPaperHashExists_def Let_def
      split: reply.splits body.splits)

lemma sq_dedup_probe [simp]: "same_query s (snd (dedup_probe e blob s))"
  by (simp add: dedup_probe_def split: option.splits)

lemma sq_show_existing [simp]: "same_query s (show_existing e m s)"
  by (simp add: same_query_def search_requests_def show_existing_def showToast_def
      displayPaper_def showPaperView_def Let_def)

lemma sq_upload_step3 [simp]: "same_query s (state_of (upload_step3 e f n s))"
  by (simp add: same_query_def search_requests_def upload_step3_def enqueuePaper_def
      showToast_def Let_def split: option.splits reply.splits body.splits)

lemma sq_upload_catch [simp]: "same_query s (upload_catch x s)"
  by (simp add: same_query_def search_requests_def upload_catch_def showToast_def)

lemma sq_upload_probe_then_put [simp]: "same_query s (upload_probe_then_put e f n blob s)"
proof -
  obtain r s1 where p: "dedup_probe e blob s = (r, s1)" by (cases "dedup_probe e blob s")
  with sq_dedup_probe [of s e blob] have 1: "same_query s s1" by simp
  have 2: "same_query s1 (show_existing e m s1)" for m by simp
  have 3: "same_query s1 (case upload_step3 e f n s1 of Returned s2 \<Rightarrow> s2
      | Raised x s2 \<Rightarrow> upload_catch x s2)"
    using sq_upload_step3 [of s1 e f n]
    by (cases "upload_step3 e f n s1") (auto intro: same_query_trans [OF _ sq_upload_catch])
  from p show ?thesis
    by (cases r) (auto simp: upload_probe_then_put_def intro: same_query_trans [OF 1 2]
        same_query_trans [OF 1 3])
qed

lemma sq_uploadFile_try [simp]: "same_query s (uploadFile_try e f s)"
proof -
  have "same_query s (showToast m t (s\<lparr>uploadModalShown := False\<rparr>))" for m t
    by (simp add: same_query_def search_requests_def showToast_def)
  then show ?thesis
    by (simp add: uploadFile_try_def Let_def split: option.splits)
qed

lemma sq_uploadFile: "same_query s (uploadFile e s)"
proof (cases "uploadInputFile s")
  case None
  then show ?thesis by (simp add: uploadFile_def)
next
  case (Some f)
  define s3 where "s3 = (setUploadButtonLoading True (setApiCallState e True s))\<lparr>uploadModalShown := True\<rparr>"
  have 1: "same_query s s3"
    by (simp add: s3_def same_query_def search_requests_def setUploadButtonLoading_def
        setApiCallState_def disableAllUIInteractions_def Let_def)
  have 2: "same_query s3 (uploadFile_try e f s3)" by simp
  have 3: "same_query s4 ((setApiCallState e False (setUploadButtonLoading False s4))\<lparr>uploadInputFile := None\<rparr>)" for s4
    by (simp add: same_query_def search_requests_def setUploadButtonLoading_def
        setApiCallState_def enableAllUIInteractions_def Let_def)
  have "uploadFile e s = (setApiCallState e False (setUploadButtonLoading False (uploadFile_try e f s3)))\<lparr>uploadInputFile := None\<rparr>"
    using Some by (simp add: uploadFile_def s3_def Let_def)
  with same_query_trans [OF same_query_trans [OF 1 2] 3] show ?thesis by simp
qed

lemma qc_fire_timer:
  assumes "query_cleared s"
  shows "query_cleared (fire_timer s) \<and> search_requests (fire_timer s) = search_requests s"
proof (cases "timers s")
  case Nil
  with assms show ?thesis by (simp add: fire_timer_def)
next
  case (Cons t rest)
  obtain delay cb where t: "t = (delay, cb)" by (cases t)
  obtain name where cb: "cb = UploadDone name" by (cases cb)
  have "search_requests (showToast (msg_uploaded name) Success (s\<lparr>timers := rest, uploadModalShown := False\<rparr>))
        = search_requests s"
    by (simp add: search_requests_def showToast_def)
  with Cons t cb qc_showUploadsView
    [of "showToast (msg_uploaded name) Success (s\<lparr>timers := rest, uploadModalShown := False\<rparr>)"]
  show ?thesis by (simp add: fire_timer_def)
qed

lemma qc_listener:
  assumes qc: "query_cleared s" and quiet: "quiet_event ev"
  shows "query_cleared (listener e ev s) \<and> search_requests (listener e ev s) = search_requests s"
proof (cases "ev = UploadInputChange")
  case True
  with qc_same [OF qc sq_uploadFile] show ?thesis by simp
next
  case other: False
  show ?thesis
  proof (cases "isApiCallInProgress s")
    case True
    then have "listener e ev s = showToast msg_wait Info s" using other by (rule listener_locked)
    with qc_same [OF qc sq_showToast] show ?thesis by simp
  next
    case False
    from qc have q: "currentQuery s = []" by (simp add: query_cleared_def)
    note keep = qc_same [OF qc]
    show ?thesis
    proof (cases ev)
      case SortChange
      with False q have "listener e ev s = s\<lparr>currentSortBy := sortBySelectValue s, currentPage := 0\<rparr>"
        by (simp add: handleSortChange_def)
      with qc show ?thesis by (simp add: query_cleared_def search_requests_def)
    next
      case SearchTabClick
      with False have "listener e ev s = showSearchView e False s" by simp
      with qc_showSearchView [OF q] show ?thesis by simp
    next
      case UploadsTabClick
      with False have "listener e ev s = state_of (showUploadsView s)" by simp
      with qc_showUploadsView show ?thesis by simp
    next
      case ReturnClick
      with False have "listener e ev s = state_of (showUploadsView s) \<or>
          listener e ev s = showSearchView e False s"
        by (simp add: return_click_def)
      with qc_showUploadsView [of s] qc_showSearchView [OF q, of e False] show ?thesis by auto
    next
      case (PopState loc)
      with False have "listener e ev s = s \<or> listener e ev s = showSearchView e False s \<or>
          (\<exists>i. listener e ev s = fetchPaper e i s)"
        by (cases loc) (auto simp: popstate_def)
      with qc qc_fetchPaper [OF qc, of e] qc_showSearchView [OF q, of e False] show ?thesis by auto
    next
      case (SummarizeClick i)
      have "same_query s (state_of (processPaperSummary e pd b (setButtonLoading i True s)))" for pd b
        using same_query_trans [OF sq_setButtonLoading sq_processPaperSummary] .
      with SummarizeClick False have "same_query s (listener e ev s)"
        by (simp add: summarize_click_def split: item.splits)
      then show ?thesis by (rule keep)
    next
      case (UploadCardClick i)
      with False have "same_query s (listener e ev s)"
        by (simp add: upload_card_click_def split: item.splits)
      then show ?thesis by (rule keep)
    next
      case UploadButtonClick
      with qc False show ?thesis by simp
    qed (use quiet other in simp_all)
  qed
qed

lemma qc_dispatch:
  assumes "query_cleared s" "quiet_event ev"
  shows "query_cleared (dispatch e ev s) \<and> search_requests (dispatch e ev s) = search_requests s"
  using assms qc_listener [OF assms, of e] by (simp add: dispatch_def)

lemma qc_perform:
  assumes qc: "query_cleared s" and quiet: "quiet_step st"
  shows "query_cleared (perform e st s) \<and> search_requests (perform e st s) = search_requests s"
proof (cases st)
  case (UserEvent ev)
  with qc_dispatch [OF qc, of ev e] quiet show ?thesis by simp
next
  case (Typed t)
  with qc show ?thesis by (simp add: query_cleared_def search_requests_def)
next
  case (FileChosen f)
  have 1: "query_cleared (s\<lparr>uploadInputFile := Some f\<rparr>)"
     "search_requests (s\<lparr>uploadInputFile := Some f\<rparr>) = search_requests s"
    using qc by (simp_all add: query_cleared_def search_requests_def)
  from qc_dispatch [OF 1(1), of UploadInputChange e] 1(2) qc FileChosen show ?thesis by simp
next
  case TimerFired
  with qc_fire_timer [OF qc] show ?thesis by simp
qed

text \<open>
  As long as no query is submitted and no page button clicked, a cleared query stays
  cleared and no search request is sent.
\<close>

lemma quiet_steps_send_no_search:
  assumes "query_cleared s" "\<forall>x \<in> set sts. quiet_step (snd x)"
  shows "query_cleared (run_steps sts s) \<and> search_requests (run_steps sts s) = search_requests s"
  using assms
proof (induction sts arbitrary: s)
  case Nil
  then show ?case by simp
next
  case (Cons x sts)
  obtain e st where x: "x = (e, st)" by (cases x)
  with Cons.prems have q: "quiet_step st" by simp
  from qc_perform [OF Cons.prems(1) q, of e] Cons.IH [of "perform e st s"] Cons.prems(2) x
  show ?case by simp
qed

text \<open>
  A click on a page button in the Search view fetches whatever the stored query is, the
  empty one included; the query stays cleared all the same, and the pagination bar hidden.
\<close>

lemma fetchResults_netlog:
  "netlog (fetchResults e s) =
     netlog s @ [SearchReq (currentQuery s) (currentPage s) (currentSortBy s)]"
  by (simp add: fetchResults_def fetchResults_try_def displayResults_def setApiCallState_def
      disableAllUIInteractions_def enableAllUIInteractions_def showToast_def show_pagination_def
      Let_def split: reply.splits body.splits option.splits completion.splits)

lemma qc_fetchResults:
  assumes "query_cleared s"
  shows "query_cleared (fetchResults e s)"
  using assms
  by (simp add: query_cleared_def fetchResults_def fetchResults_try_def displayResults_def
      setApiCallState_def disableAllUIInteractions_def enableAllUIInteractions_def showToast_def
      show_pagination_def Let_def split: reply.splits body.splits option.splits completion.splits)

lemma handlePageChange_fetches:
  assumes "\<not> isApiCallInProgress s" "currentView s = SearchView"
  shows "netlog (handlePageChange e delta s) =
           netlog s @ [SearchReq (currentQuery s) (currentPage s + delta) (currentSortBy s)]"
  using assms by (simp add: handlePageChange_def fetchResults_netlog Let_def)

lemma qc_handlePageChange:
  assumes "query_cleared s"
  shows "query_cleared (handlePageChange e delta s)"
proof -
  have "query_cleared (s\<lparr>currentPage := currentPage s + delta\<rparr>)"
    using assms by (simp add: query_cleared_def)
  from this qc_fetchResults [OF this, of e] qc_same [OF assms sq_showToast] show ?thesis
    by (simp add: handlePageChange_def Let_def)
qed

lemma cleared_dispatch:
  assumes qc: "query_cleared s" and "\<not> submits_query ev"
  shows "query_cleared (dispatch e ev s)"
proof (cases "quiet_event ev")
  case True
  with qc_dispatch [OF qc] show ?thesis by simp
next
  case False
  with assms(2) have "ev = PrevPageClick \<or> ev = NextPageClick" by (cases ev) simp_all
  with qc qc_handlePageChange [OF qc] show ?thesis by (auto simp: dispatch_def)
qed

lemma cleared_perform:
  assumes qc: "query_cleared s" and "\<not> submitting_step st"
  shows "query_cleared (perform e st s)"
proof (cases st)
  case (UserEvent ev)
  with cleared_dispatch [OF qc, of ev e] assms(2) show ?thesis by simp
next
  case (Typed t)
  with qc_perform [OF qc, of st e] show ?thesis by simp
next
  case (FileChosen f)
  with qc_perform [OF qc, of st e] show ?thesis by simp
next
  case TimerFired
  with qc_perform [OF qc, of st e] show ?thesis by simp
qed

lemma cleared_run_steps:
  assumes "query_cleared s" "\<forall>x \<in> set sts. \<not> submitting_step (snd x)"
  shows "query_cleared (run_steps sts s)"
  using assms
proof (induction sts arbitrary: s)
  case Nil
  then show ?case by simp
next
  case (Cons x sts)
  obtain e st where x: "x = (e, st)" by (cases x)
  with Cons.prems have q: "\<not> submitting_step st" by simp
  from cleared_perform [OF Cons.prems(1) q, of e] Cons.IH [of "perform e st s"] Cons.prems(2) x
  show ?case by simp
qed

text \<open>
  C10. Every entry into the uploads view empties the stored query and the search input.
  From there on, whatever follows short of a query submission, be it clicks (those on the
  page buttons included), typing, uploads or timers, the stored query stays empty and the
  pagination bar hidden, and a return to the Search view shows no pagination bar and
  sends no request.
\<close>

theorem uploads_entry_clears_query:
  assumes "\<forall>x \<in> set sts. \<not> submitting_step (snd x)"
  shows "currentQuery (state_of (showUploadsView s)) = [] \<and>
         searchInputValue (state_of (showUploadsView s)) = [] \<and>
         currentView (state_of (showUploadsView s)) = UploadsView \<and>
         currentQuery (run_steps sts (state_of (showUploadsView s))) = [] \<and>
         \<not> paginationDisplay (run_steps sts (state_of (showUploadsView s))) \<and>
         currentView (showSearchView e skip (run_steps sts (state_of (showUploadsView s)))) = SearchView \<and>
         \<not> paginationDisplay (showSearchView e skip (run_steps sts (state_of (showUploadsView s)))) \<and>
         netlog (showSearchView e skip (run_steps sts (state_of (showUploadsView s)))) =
           netlog (run_steps sts (state_of (showUploadsView s)))"
proof -
  let ?s1 = "state_of (showUploadsView s)"
  have entry: "currentQuery ?s1 = [] \<and> searchInputValue ?s1 = [] \<and> currentView ?s1 = UploadsView"
    by (simp add: showUploadsView_def displayUploadsList_def Let_def)
  from qc_showUploadsView [of s] have "query_cleared ?s1" by simp
  from cleared_run_steps [OF this assms]
  have r: "currentQuery (run_steps sts ?s1) = []" "\<not> paginationDisplay (run_steps sts ?s1)"
    by (simp_all add: query_cleared_def)
  from r(1) have ret: "currentView (showSearchView e skip (run_steps sts ?s1)) = SearchView \<and>
      \<not> paginationDisplay (showSearchView e skip (run_steps sts ?s1)) \<and>
      netlog (showSearchView e skip (run_steps sts ?s1)) = netlog (run_steps sts ?s1)"
    by (simp add: showSearchView_def show_pagination_def Let_def)
  from entry r ret show ?thesis by simp
qed

lemma searched_ctx_facts:
  "currentQuery searched_ctx = js ''ml''" "paginationDisplay searched_ctx"
  "netlog searched_ctx = [SearchReq (js ''ml'') 0 (js ''relevance'')]"
  by (simp_all add: searched_ctx_def dispatch_def typed_ctx_def start_ctx_def env0_def handleSearch_def
      fetchResults_def fetchResults_try_def displayResults_def results_a_def paper_a_def
      empty_paper_def createPaperCard_def ui_defs trim_ml Let_def startsWith_def)

theorem uploads_entry_clears_query_witness:
  "\<not> submitting_step (UserEvent SearchTabClick) \<and> \<not> submitting_step (UserEvent NextPageClick) \<and>
   \<not> submitting_step (Typed (js ''x'')) \<and> \<not> submitting_step TimerFired \<and>
   currentQuery searched_ctx \<noteq> [] \<and> paginationDisplay searched_ctx \<and>
   currentQuery (state_of (showUploadsView searched_ctx)) = [] \<and>
   searchInputValue (state_of (showUploadsView searched_ctx)) = [] \<and>
   currentQuery (run_steps [(env0, UserEvent SearchTabClick), (env0, UserEvent NextPageClick),
        (env0, Typed (js ''x'')), (env0, TimerFired)]
      (state_of (showUploadsView searched_ctx))) = [] \<and>
   \<not> paginationDisplay (run_steps [(env0, UserEvent SearchTabClick),
        (env0, UserEvent NextPageClick), (env0, Typed (js ''x'')), (env0, TimerFired)]
      (state_of (showUploadsView searched_ctx))) \<and>
   \<not> paginationDisplay (showSearchView env0 False
      (run_steps [(env0, UserEvent SearchTabClick), (env0, UserEvent NextPageClick),
        (env0, Typed (js ''x'')), (env0, TimerFired)]
      (state_of (showUploadsView searched_ctx))))"
proof -
  have h: "\<forall>x \<in> set [(env0, UserEvent SearchTabClick), (env0, UserEvent NextPageClick),
      (env0, Typed (js ''x'')), (env0, TimerFired)]. \<not> submitting_step (snd x)"
    by simp
  from uploads_entry_clears_query [OF h, of searched_ctx env0 False] show ?thesis
    by (simp add: searched_ctx_facts)
qed

section \<open>Properties of the UploadPipeline\<close>

lemma frame_setApiCallState [simp]:
  "netlog (setApiCallState e b s) = netlog s"
  "currentView (setApiCallState e b s) = currentView s"
  "currentPaperData (setApiCallState e b s) = currentPaperData s"
  "paperContent (setApiCallState e b s) = paperContent s"
  "isApiCallInProgress (setApiCallState e b s) = b"
  "toasts (setApiCallState e b s) = toasts s"
  "currentQuery (setApiCallState e b s) = currentQuery s"
  "currentPage (setApiCallState e b s) = currentPage s"
  "paginationDisplay (setApiCallState e b s) = paginationDisplay s"
  "uploadInputFile (setApiCallState e b s) = uploadInputFile s"
  "myUploads (setApiCallState e b s) = myUploads s"
  "timers (setApiCallState e b s) = timers s"
  "paperViewShown (setApiCallState e b s) = paperViewShown s"
  "searchSectionShown (setApiCallState e b s) = searchSectionShown s"
  "resultsSectionShown (setApiCallState e b s) = resultsSectionShown s"
  by (simp_all add: setApiCallState_def disableAllUIInteractions_def enableAllUIInteractions_def Let_def)

lemma frame_setUploadButtonLoading [simp]:
  "netlog (setUploadButtonLoading b s) = netlog s"
  "currentView (setUploadButtonLoading b s) = currentView s"
  "currentPaperData (setUploadButtonLoading b s) = currentPaperData s"
  "paperContent (setUploadButtonLoading b s) = paperContent s"
  "isApiCallInProgress (setUploadButtonLoading b s) = isApiCallInProgress s"
  "myUploads (setUploadButtonLoading b s) = myUploads s"
  "timers (setUploadButtonLoading b s) = timers s"
  "paperViewShown (setUploadButtonLoading b s) = paperViewShown s"
  "searchSectionShown (setUploadButtonLoading b s) = searchSectionShown s"
  "resultsSectionShown (setUploadButtonLoading b s) = resultsSectionShown s"
  by (simp_all add: setUploadButtonLoading_def)

lemma frame_displayPaper [simp]:
  "netlog (displayPaper p s) = netlog s"
  "currentView (displayPaper p s) = PaperView"
  "currentPaperData (displayPaper p s) = currentPaperData s"
  "isApiCallInProgress (displayPaper p s) = isApiCallInProgress s"
  "myUploads (displayPaper p s) = myUploads s"
  "timers (displayPaper p s) = timers s"
  by (simp_all add: displayPaper_def showPaperView_def Let_def)

lemma displayPaper_flags:
  "paperViewShown (displayPaper p s)" "\<not> searchSectionShown (displayPaper p s)"
  "\<not> resultsSectionShown (displayPaper p s)"
  by (simp_all add: displayPaper_def showPaperView_def Let_def)

lemma text_or_own:
  "(if truthy own then the own
    else if r \<noteq> None \<and> truthy (field (the r)) then the (field (the r)) else []) =
   text_or own (case r of None \<Rightarrow> None | Some x \<Rightarrow> field x)"
proof (cases own)
  case None
  then show ?thesis
    by (cases r; cases "field (the r)") (simp_all add: text_or_def)
next
  case (Some t)
  then show ?thesis
    by (cases r; cases "field (the r)") (simp_all add: text_or_def)
qed

lemma displayPaper_content:
  "paperContent (displayPaper p s) = Some (shown_record p)"
proof -
  let ?r = "arxivReference p"
  have t: "(if (if truthy (title p) then the (title p) else []) = [] \<and> ?r \<noteq> None \<and>
               truthy (ref_title (the ?r))
            then the (ref_title (the ?r))
            else (if truthy (title p) then the (title p) else [])) =
           text_or (title p) (ref_field ref_title p)"
    using text_or_own [of "title p" ?r ref_title]
    by (cases "title p") (auto simp: ref_field_def)
  have su: "(if truthy (summary p) then the (summary p)
             else if ?r \<noteq> None \<and> truthy (ref_summary (the ?r)) then the (ref_summary (the ?r))
             else []) = text_or (summary p) (ref_field ref_summary p)"
    using text_or_own [of "summary p" ?r ref_summary] by (simp add: ref_field_def)
  have au: "(if authors p \<noteq> None then the (authors p)
             else if ?r \<noteq> None \<and> ref_authors (the ?r) \<noteq> None then the (ref_authors (the ?r))
             else []) =
            (case authors p of Some a \<Rightarrow> a
             | None \<Rightarrow> (case ref_field ref_authors p of Some a \<Rightarrow> a | None \<Rightarrow> []))"
    by (cases "authors p"; cases ?r; cases "ref_authors (the ?r)") (simp_all add: ref_field_def)
  show ?thesis
    unfolding displayPaper_def Let_def shown_record_def
    by (simp only: t su au) (simp add: showPaperView_def)
qed

lemma frame_show_existing [simp]:
  "netlog (show_existing e m s) = netlog s"
  "currentView (show_existing e m s) = PaperView"
  "currentPaperData (show_existing e m s) = Some m"
  "myUploads (show_existing e m s) = myUploads s"
  "timers (show_existing e m s) = timers s"
  by (simp_all add: show_existing_def showToast_def Let_def)

lemma show_existing_shows_record:
  "paperContent (show_existing e m s) = Some (shown_record m)"
  "paperViewShown (show_existing e m s)" "\<not> searchSectionShown (show_existing e m s)"
  "\<not> resultsSectionShown (show_existing e m s)"
  by (simp_all add: show_existing_def displayPaper_content displayPaper_flags Let_def)

lemma hit_iff:
  "fst (checkPaperHashExists e h s) = Some m \<longleftrightarrow>
     hashReply e = Reply True (JsonObj m) \<and> truthy (arxiv_id m)"
  by (auto simp: checkPaperHashExists_def Let_def split: reply.splits body.splits if_splits)

lemma check_on_hit:
  assumes "hashReply e = Reply True (JsonObj m)" "truthy (arxiv_id m)"
  shows "checkPaperHashExists e h s = (Some m, s\<lparr>netlog := netlog s @ [HashReq h]\<rparr>)"
  using assms by (simp add: checkPaperHashExists_def)

lemma step3_log:
  "\<exists>rest. netlog (state_of (upload_step3 e f n s)) = netlog s @ rest \<and> (\<forall>h. HashReq h \<notin> set rest)"
  by (auto simp: upload_step3_def enqueuePaper_def showToast_def Let_def split: option.splits reply.splits body.splits)

lemma upload_catch_log [simp]: "netlog (upload_catch x s) = netlog s"
  by (simp add: upload_catch_def showToast_def)

lemma probe_then_put_cases:
  assumes "hashReply e = Reply True (JsonObj m)" "truthy (arxiv_id m)"
  shows "(\<exists>h. upload_probe_then_put e f n blob s = show_existing e m (s\<lparr>netlog := netlog s @ [HashReq h]\<rparr>)) \<or>
         (\<exists>rest. netlog (upload_probe_then_put e f n blob s) = netlog s @ rest \<and> (\<forall>h. HashReq h \<notin> set rest))"
proof (cases "dedup_probe e blob s = (None, s)")
  case True
  obtain rest where r: "netlog (state_of (upload_step3 e f n s)) = netlog s @ rest" "\<forall>h. HashReq h \<notin> set rest"
    using step3_log by blast
  have "netlog (upload_probe_then_put e f n blob s) = netlog (state_of (upload_step3 e f n s))"
    using True by (simp add: upload_probe_then_put_def split: completion.splits)
  with r show ?thesis by auto
next
  case False
  then obtain h where "dedup_probe e blob s = checkPaperHashExists e h s"
    by (auto simp: dedup_probe_def split: option.splits if_splits)
  with assms have "upload_probe_then_put e f n blob s =
      show_existing e m (s\<lparr>netlog := netlog s @ [HashReq h]\<rparr>)"
    by (simp add: check_on_hit upload_probe_then_put_def)
  then show ?thesis by blast
qed

lemma try_cases:
  assumes "hashReply e = Reply True (JsonObj m)" "truthy (arxiv_id m)"
  shows "(\<exists>h. uploadFile_try e f s = show_existing e m (s\<lparr>netlog := netlog s @ [HashReq h]\<rparr>)) \<or>
         (\<exists>rest. netlog (uploadFile_try e f s) = netlog s @ rest \<and> (\<forall>h. HashReq h \<notin> set rest))"
  using probe_then_put_cases [OF assms]
  by (auto simp: uploadFile_try_def Let_def showToast_def split: option.splits)

text \<open>
  C2. When an upload sends the dedup probe and the probe's answer is a hit (a successful
  answer whose record has an identifier), the probe is the only request of the upload: no
  PUT to the object storage and no task submission, no upload record and no timer. The
  existing record becomes the current paper and is displayed: the paper view is shown in
  place of the search and results sections, and its content is the title, the authors
  and the summary of the record. The lock is released.
\<close>

theorem dedup_hit_short_circuits:
  assumes hit: "fst (checkPaperHashExists e h s) = Some m"
      and sent: "HashReq h \<in> set (new_requests s (uploadFile e s))"
  shows "new_requests s (uploadFile e s) = [HashReq h] \<and>
         myUploads (uploadFile e s) = myUploads s \<and>
         timers (uploadFile e s) = timers s \<and>
         currentView (uploadFile e s) = PaperView \<and>
         currentPaperData (uploadFile e s) = Some m \<and>
         paperContent (uploadFile e s) = Some (shown_record m) \<and>
         paperViewShown (uploadFile e s) \<and> \<not> searchSectionShown (uploadFile e s) \<and>
         \<not> resultsSectionShown (uploadFile e s) \<and>
         \<not> isApiCallInProgress (uploadFile e s)"
proof (cases "uploadInputFile s")
  case None
  with sent show ?thesis by (simp add: uploadFile_def new_requests_def showToast_def)
next
  case (Some f)
  from hit have r: "hashReply e = Reply True (JsonObj m)" "truthy (arxiv_id m)"
    by (simp_all add: hit_iff)
  define s3 where "s3 = (setUploadButtonLoading True (setApiCallState e True s))\<lparr>uploadModalShown := True\<rparr>"
  have n3: "netlog s3 = netlog s" "myUploads s3 = myUploads s" "timers s3 = timers s"
    by (simp_all add: s3_def)
  have u: "uploadFile e s =
     (setApiCallState e False (setUploadButtonLoading False (uploadFile_try e f s3)))\<lparr>uploadInputFile := None\<rparr>"
    using Some by (simp add: uploadFile_def s3_def Let_def)
  from try_cases [OF r, of f s3] show ?thesis
  proof
    assume "\<exists>h'. uploadFile_try e f s3 = show_existing e m (s3\<lparr>netlog := netlog s3 @ [HashReq h']\<rparr>)"
    then obtain h' where t: "uploadFile_try e f s3 = show_existing e m (s3\<lparr>netlog := netlog s3 @ [HashReq h']\<rparr>)" ..
    have nr: "new_requests s (uploadFile e s) = [HashReq h']"
      by (simp add: u t n3 new_requests_def)
    with sent have "h' = h" by simp
    with nr show ?thesis
      by (simp add: u t n3 show_existing_shows_record)
  next
    assume "\<exists>rest. netlog (uploadFile_try e f s3) = netlog s3 @ rest \<and> (\<forall>h. HashReq h \<notin> set rest)"
    then obtain rest where "netlog (uploadFile_try e f s3) = netlog s3 @ rest" "\<forall>h. HashReq h \<notin> set rest"
      by blast
    then have "new_requests s (uploadFile e s) = rest" "HashReq h \<notin> set rest"
      by (simp_all add: u n3 new_requests_def)
    with sent show ?thesis by simp
  qed
qed

lemma txt_upload_log:
  "netlog (uploadFile env_hit txt_ctx) = [HashReq (js ''helloworld'')]"
  by (simp add: uploadFile_def uploadFile_try_def txt_ctx_def env_hit_def env0_def ext_txt
      upload_probe_then_put_def dedup_probe_def hash_hello checkPaperHashExists_def
      paper_cached_def empty_paper_def show_existing_def start_ctx_def Let_def ui_defs)

theorem dedup_hit_short_circuits_witness:
  "fst (checkPaperHashExists env_hit (js ''helloworld'') txt_ctx) = Some paper_cached \<and>
   HashReq (js ''helloworld'') \<in> set (new_requests txt_ctx (uploadFile env_hit txt_ctx)) \<and>
   new_requests txt_ctx (uploadFile env_hit txt_ctx) = [HashReq (js ''helloworld'')] \<and>
   myUploads (uploadFile env_hit txt_ctx) = [] \<and>
   currentView (uploadFile env_hit txt_ctx) = PaperView \<and>
   currentPaperData (uploadFile env_hit txt_ctx) = Some paper_cached \<and>
   paperContent (uploadFile env_hit txt_ctx) =
     Some \<lparr>shown_title = js ''Notes'', shown_authors = js ''Manually uploaded'',
           shown_summary = js ''Short''\<rparr> \<and>
   paperViewShown (uploadFile env_hit txt_ctx) \<and>
   \<not> searchSectionShown (uploadFile env_hit txt_ctx) \<and>
   \<not> resultsSectionShown (uploadFile env_hit txt_ctx) \<and>
   \<not> isApiCallInProgress (uploadFile env_hit txt_ctx)"
proof -
  have hit: "fst (checkPaperHashExists env_hit (js ''helloworld'') txt_ctx) = Some paper_cached"
    by (simp add: hit_iff env_hit_def paper_cached_def empty_paper_def)
  have sent: "HashReq (js ''helloworld'') \<in> set (new_requests txt_ctx (uploadFile env_hit txt_ctx))"
    by (simp add: new_requests_def txt_upload_log) (simp add: txt_ctx_def start_ctx_def)
  have shown: "shown_record paper_cached =
      \<lparr>shown_title = js ''Notes'', shown_authors = js ''Manually uploaded'',
       shown_summary = js ''Short''\<rparr>"
    by (simp add: shown_record_def text_or_def ref_field_def paper_cached_def empty_paper_def)
  from dedup_hit_short_circuits [OF hit sent] hit sent shown show ?thesis
    by (simp add: txt_ctx_def start_ctx_def)
qed

section \<open>Properties of the OperationLock\<close>

text \<open>
  The search fetch, the paper fetch and the upload end with the lock released on every
  path, and so does the summarize flow on every path that reaches its try statement.
\<close>

lemma fetchResults_releases: "\<not> isApiCallInProgress (fetchResults e s)"
  by (simp add: fetchResults_def)

lemma fetchPaper_releases: "\<not> isApiCallInProgress (fetchPaper e arxivId s)"
  by (simp add: fetchPaper_def)

lemma uploadFile_releases:
  "uploadInputFile s \<noteq> None \<Longrightarrow> \<not> isApiCallInProgress (uploadFile e s)"
  by (auto simp: uploadFile_def Let_def)

lemma processPaperSummary_releases:
  "processPaperSummary e pd b s = Returned s' \<Longrightarrow> \<not> isApiCallInProgress s'"
  by (auto simp: processPaperSummary_def Let_def split: option.splits if_splits)

lemma processPaperSummary_raises:
  "has_raised (processPaperSummary e pd b s) \<longleftrightarrow>
     \<not> truthy (pd_sanitized_arxiv_id pd) \<and> pd_arxiv_id pd = None"
  by (auto simp: processPaperSummary_def Let_def split: option.splits)

lemma listed_ctx_facts:
  "resultsContainer listed_ctx =
     [PaperCard \<lparr>data_paper = escape_paper paper_noid, card_loading = False, card_disabled = False\<rparr>]"
  "\<not> isApiCallInProgress listed_ctx"
  by (simp_all add: listed_ctx_def dispatch_def typed_ctx_def start_ctx_def env0_def env_noid_def
      handleSearch_def fetchResults_def fetchResults_try_def displayResults_def paper_noid_def
      empty_paper_def createPaperCard_def ui_defs trim_ml Let_def startsWith_def)

text \<open>
  C1. The summarize flow takes the lock and computes the sanitized identifier before its
  try statement. For a search result without an identifier the computation throws, the
  finally block is never entered and the lock stays held: after a search that lists such
  a paper, with the lock free, a click on its summarize button leaves the lock held.
\<close>

theorem summarize_without_id_keeps_lock:
  "\<not> isApiCallInProgress listed_ctx \<and>
   has_raised (processPaperSummary env_noid (OfPaper (escape_paper paper_noid)) (Some 0)
                 (setButtonLoading 0 True listed_ctx)) \<and>
   isApiCallInProgress (dispatch env_noid (SummarizeClick 0) listed_ctx)"
  by (simp add: dispatch_def card_at_def summarize_click_def listed_ctx_facts processPaperSummary_def
      setButtonLoading_def escape_paper_def paper_noid_def empty_paper_def setApiCallState_def
      disableAllUIInteractions_def Let_def)

text \<open>Whatever the page and the last answer, releasing the lock enables the previous-page button.\<close>

lemma release_enables_prev: "\<not> prevPageDisabled (setApiCallState e False s)"
  by (simp add: setApiCallState_def enableAllUIInteractions_def Let_def)

text \<open>
  C4. After a first search, answered with \<open>has_next_page\<close> true, the lock is free and the
  page index is 0, yet the previous-page button is enabled: \<open>displayResults\<close> disabled it,
  and the release of the lock enabled it again, whether or not the window has properties
  named after the two buttons.
\<close>

theorem first_page_prev_enabled:
  "prevPageDisabled (fetchResults_try (env0\<lparr>windowPagerProps := b\<rparr>)
       (showSearchView (env0\<lparr>windowPagerProps := b\<rparr>) True (typed_ctx\<lparr>currentQuery := js ''ml''\<rparr>))) \<and>
   currentPage (dispatch (env0\<lparr>windowPagerProps := b\<rparr>) SearchClick typed_ctx) = 0 \<and>
   \<not> isApiCallInProgress (dispatch (env0\<lparr>windowPagerProps := b\<rparr>) SearchClick typed_ctx) \<and>
   \<not> prevPageDisabled (dispatch (env0\<lparr>windowPagerProps := b\<rparr>) SearchClick typed_ctx)"
  by (cases b)
     (simp_all add: dispatch_def typed_ctx_def start_ctx_def env0_def handleSearch_def fetchResults_def
      fetchResults_try_def displayResults_def results_a_def paper_a_def empty_paper_def
      createPaperCard_def ui_defs trim_ml Let_def startsWith_def)

section \<open>Properties of the TaskSubmitter\<close>

lemma enqueuePaper_once:
  "netlog (snd (enqueuePaper e pd s)) = netlog s @ [EnqueueReq pd]"
  by (simp add: enqueuePaper_def Let_def split: reply.splits body.splits)

text \<open>
  C8. The backend rejects the task with an error in the body. \<open>enqueuePaper\<close> returns
  false and does not throw, but neither caller reads the value: the summarize flow and the
  upload each show their success notice and no other notice.
\<close>

theorem rejected_submission_reported_as_success:
  "fst (enqueuePaper env_reject (OfPaper paper_a) start_ctx) = False \<and>
   toasts (state_of (processPaperSummary env_reject (OfPaper paper_a) None start_ctx)) =
     [(msg_queued_summarizing, Success)] \<and>
   toasts (uploadFile env_reject pdf_ctx) = [(msg_queued_summarization, Success)]"
  by (simp add: enqueuePaper_def env_reject_def env0_def processPaperSummary_def
      processPaperSummary_try_def paper_a_def empty_paper_def ui_defs start_ctx_def Let_def
      uploadFile_def uploadFile_try_def pdf_ctx_def ext_pdf upload_probe_then_put_def
      dedup_probe_def generatePdfHash_def upload_step3_def)

section \<open>Properties of the PollLoop\<close>

text \<open>
  C7, as stated: a response that carries a processing-error field ends the loop in
  failure with a notice. It fails for a response that also has the processing flag set:
  the flag is looked at first, and the loop schedules the next poll.
\<close>

theorem poll_error_field_counterexample:
  "truthy (sm_processing_error processing_with_error) \<and>
   \<not> errorModalShown
      (pollForSummary_step (Reply True (JsonObj processing_with_error)) (js ''id'') start_app) \<and>
   \<not> poll_failure (js ''failed'') start_app
      (pollForSummary_step (Reply True (JsonObj processing_with_error)) (js ''id'') start_app) \<and>
   poll_continue (js ''id'') start_app
      (pollForSummary_step (Reply True (JsonObj processing_with_error)) (js ''id'') start_app)"
  by (simp add: processing_with_error_def empty_summary_data_def pollForSummary_step_def
      poll_failure_def poll_continue_def start_app_def)

text \<open>
  C7, amended: the fields of a response are looked at in a fixed order. A request that
  fails, or a body that cannot be read or is \<open>null\<close>, ends the loop in failure with a
  notice; so does a response with an \<open>error\<close> field. Otherwise, with the processing flag
  true, exactly one poll is scheduled 5000 milliseconds later and nothing else changes.
  Otherwise, with a summary that is not empty and a list of authors, the loop ends in
  success and the summary is displayed. Otherwise, with a processing-error field, the loop
  ends in failure with that field as the notice.
\<close>

theorem poll_decision:
  "(r = NetworkError \<or> r = Reply ok Unparsable \<or> r = Reply ok JsonNull \<longrightarrow>
      poll_failure msg_summary_failed s (pollForSummary_step r arxivId s)) \<and>
   (r = Reply ok (JsonObj d) \<and> truthy (sm_error d) \<longrightarrow>
      poll_failure (the (sm_error d)) s (pollForSummary_step r arxivId s)) \<and>
   (r = Reply ok (JsonObj d) \<and> \<not> truthy (sm_error d) \<and> sm_processing d = Some True \<longrightarrow>
      poll_continue arxivId s (pollForSummary_step r arxivId s)) \<and>
   (r = Reply ok (JsonObj d) \<and> \<not> truthy (sm_error d) \<and> sm_processing d \<noteq> Some True \<and>
    truthy (sm_summary d) \<and> sm_authors d \<noteq> None \<longrightarrow>
      poll_success (the (sm_summary d)) s (pollForSummary_step r arxivId s)) \<and>
   (r = Reply ok (JsonObj d) \<and> \<not> truthy (sm_error d) \<and> sm_processing d \<noteq> Some True \<and>
    \<not> truthy (sm_summary d) \<and> truthy (sm_processing_error d) \<longrightarrow>
      poll_failure (the (sm_processing_error d)) s (pollForSummary_step r arxivId s))"
  by (auto simp: pollForSummary_step_def poll_failure_def poll_continue_def poll_success_def
      showError_def Let_def)

theorem poll_decision_witness:
  "poll_failure msg_summary_failed start_app (pollForSummary_step NetworkError (js ''id'') start_app) \<and>
   poll_continue (js ''id'') start_app
     (pollForSummary_step (Reply True (JsonObj still_processing)) (js ''id'') start_app) \<and>
   poll_success (js ''S'') start_app
     (pollForSummary_step (Reply True (JsonObj summary_ready)) (js ''id'') start_app) \<and>
   poll_failure (js ''failed'') start_app
     (pollForSummary_step (Reply True (JsonObj processing_failed)) (js ''id'') start_app)"
proof -
  have a: "poll_failure msg_summary_failed start_app
             (pollForSummary_step NetworkError (js ''id'') start_app)"
    using poll_decision [where r = NetworkError and s = start_app and arxivId = "js ''id''"]
    by simp
  have b: "poll_continue (js ''id'') start_app
             (pollForSummary_step (Reply True (JsonObj still_processing)) (js ''id'') start_app)"
    using poll_decision [where r = "Reply True (JsonObj still_processing)" and ok = True
        and d = still_processing and s = start_app and arxivId = "js ''id''"]
    by (simp add: still_processing_def empty_summary_data_def)
  have c: "poll_success (js ''S'') start_app
             (pollForSummary_step (Reply True (JsonObj summary_ready)) (js ''id'') start_app)"
    using poll_decision [where r = "Reply True (JsonObj summary_ready)" and ok = True
        and d = summary_ready and s = start_app and arxivId = "js ''id''"]
    by (simp add: summary_ready_def empty_summary_data_def)
  have d: "poll_failure (js ''failed'') start_app
             (pollForSummary_step (Reply True (JsonObj processing_failed)) (js ''id'') start_app)"
    using poll_decision [where r = "Reply True (JsonObj processing_failed)" and ok = True
        and d = processing_failed and s = start_app and arxivId = "js ''id''"]
    by (simp add: processing_failed_def empty_summary_data_def)
  from a b c d show ?thesis by simp
qed

text \<open>
  The three outcomes exclude one another when no notice is displayed at the start of the
  run.
\<close>

lemma poll_outcomes_exclusive:
  assumes "\<not> errorModalShown s"
  shows "\<not> (poll_success t s s' \<and> poll_failure m s s')"
    and "\<not> (poll_continue a s s' \<and> poll_failure m s s')"
    and "\<not> (poll_continue a s s' \<and> poll_success t s s')"
  using assms by (auto simp: poll_success_def poll_failure_def poll_continue_def)

text \<open>
  A response with none of the four fields falls through the chain: the run shows no
  notice, displays nothing and schedules nothing.
\<close>

lemma poll_no_field_falls_through:
  "pollForSummary_step (Reply ok (JsonObj empty_summary_data)) arxivId s =
     s\<lparr>poll_requests := poll_requests s @ [arxivId]\<rparr>"
  by (simp add: pollForSummary_step_def empty_summary_data_def)

text \<open>
  The scenario of the specification: the first poll finds the task in processing, the
  second finds the summary.
\<close>

lemma poll_twice_then_summary:
  "pollForSummary [Reply True (JsonObj still_processing), Reply True (JsonObj summary_ready)]
     (js ''id'') start_app =
   start_app\<lparr>loadingIndicatorShown := False,
     summaryContent := Some \<lparr>shown_title = js ''T'', shown_authors = js ''Ann, Bob'',
        shown_summary = js ''S''\<rparr>,
     poll_requests := [js ''id'', js ''id'']\<rparr>"
  by (simp add: pollForSummary_step_def still_processing_def summary_ready_def
      empty_summary_data_def start_app_def Let_def js_def)


end
